theory Spec2Isabelle
  imports Complex_Main "HOL-Library.AList"
begin

section \<open>Intraday trading bot: data model\<close>

text \<open>
  The embedding follows \<^verbatim>\<open>intraday_bot.py\<close>. Python ints are \<^typ>\<open>int\<close>. Prices,
  scores and profits are continuous quantities and their floats are idealised as
  \<^typ>\<open>real\<close>; the quotient that sizes a position is truncated to an integer, so it
  is computed as binary64 computes it, with every operation rounded. A Python dict keeps its keys in insertion
  order and never holds a key twice; it is modelled as an association list that is
  written with \<^const>\<open>AList.update\<close> (replace the value in place, or append a new key at
  the end), read with \<^const>\<open>map_of\<close> and popped with \<^const>\<open>AList.delete\<close>.
  The strings \<^verbatim>\<open>"BUY"\<close>/\<^verbatim>\<open>"SELL"\<close> and \<^verbatim>\<open>"Bullish"\<close>/\<^verbatim>\<open>"Bearish"\<close>/\<^verbatim>\<open>"Neutral"\<close>
  are the only values the program ever builds for a signal and a sentiment; they are
  datatypes here. Console and log output are not part of the modelled state.
\<close>

datatype signal = BUY | SELL

datatype sentiment = Bullish | Bearish | Neutral

datatype error = IndexError | OverflowError

text \<open>A calendar day, as \<^verbatim>\<open>datetime.now().date()\<close> gives it, written \<^verbatim>\<open>YYYY-MM-DD\<close>.\<close>

type_synonym date = string

text \<open>The dict stored in \<^verbatim>\<open>active_positions[symbol]\<close>.\<close>

record position =
  signal :: signal
  qty :: int
  entry_price :: real
  stop_loss :: real

text \<open>The dict appended to a day's list in \<^verbatim>\<open>trade_history\<close>.\<close>

record closed_trade =
  symbol :: string
  trade_signal :: signal
  trade_qty :: int
  trade_entry_price :: real
  exit_price :: real
  pnl :: real
  exit_time :: string

text \<open>The columns of the price frame \<^verbatim>\<open>df\<close> that the program reads.\<close>

record price_frame =
  High :: "real list"
  Low :: "real list"
  Close :: "real list"

text \<open>
  The two global dicts, and the files written by the daily report (file name to
  file text).
\<close>

record bot_state =
  active_positions :: "(string \<times> position) list"
  trade_history :: "(date \<times> closed_trade list) list"
  files :: "(string \<times> string) list"

definition initial_state :: bot_state where
  "initial_state = \<lparr>active_positions = [], trade_history = [], files = []\<rparr>"

definition CAPITAL :: real where
  "CAPITAL = 100000"

definition RISK_PER_TRADE :: real where
  "RISK_PER_TRADE = 1 / 100"

definition POSITIVE_WORDS :: "string list" where
  "POSITIVE_WORDS = [''rally'', ''highs'', ''bullish'', ''gains'', ''optimism'', ''rate cut'']"

definition NEGATIVE_WORDS :: "string list" where
  "NEGATIVE_WORDS = [''drop'', ''crash'', ''bearish'', ''losses'', ''concerns'', ''sell-off'']"

section \<open>Python primitives\<close>

text \<open>\<^verbatim>\<open>int(x)\<close> on a float truncates towards zero.\<close>

definition py_int :: "real \<Rightarrow> int" where
  "py_int x = (if 0 \<le> x then \<lfloor>x\<rfloor> else \<lceil>x\<rceil>)"

text \<open>
  Binary64 arithmetic. A finite float is the real it stands for. Rounding is to the
  nearest float, ties to the even one, with 53 significant bits and binades from
  exponent -1022, where the subnormal range with its quantum \<open>2^-1074\<close> starts, up to
  exponent 1023.
\<close>

definition round_half_even :: "real \<Rightarrow> int" where
  "round_half_even t =
     (let f = \<lfloor>t\<rfloor>
      in if t - of_int f < 1 / 2 then f
         else if 1 / 2 < t - of_int f then f + 1
         else if even f then f else f + 1)"

text \<open>
  The quantum of the binade of a magnitude \<open>y\<close>, from the quantum \<open>q\<close> of the binade
  of 1: doubled with each halving of a \<open>y\<close> that is 2 or more (no more than 1023
  times, the largest binade), halved with each doubling of a \<open>y\<close> below 1 (no more
  than 1022 times, the smallest binade).
\<close>

primrec scale_large :: "nat \<Rightarrow> real \<Rightarrow> real \<Rightarrow> real" where
  "scale_large 0 y q = q"
| "scale_large (Suc n) y q = (if 2 \<le> y then scale_large n (y / 2) (q * 2) else q)"

primrec scale_small :: "nat \<Rightarrow> real \<Rightarrow> real \<Rightarrow> real" where
  "scale_small 0 y q = q"
| "scale_small (Suc n) y q = (if y < 1 then scale_small n (y * 2) (q / 2) else q)"

definition b64_quantum :: "real \<Rightarrow> real" where
  "b64_quantum x =
     (if 1 \<le> \<bar>x\<bar> then scale_large 1023 \<bar>x\<bar> (1 / 2 ^ 52)
      else scale_small 1022 \<bar>x\<bar> (1 / 2 ^ 52))"

text \<open>
  The nearest multiple of the quantum; it is the float the operation returns unless
  its magnitude reaches \<open>2^1024\<close>, in which case the operation returns an infinity.
\<close>

definition b64_nearest :: "real \<Rightarrow> real" where
  "b64_nearest x = of_int (round_half_even (x / b64_quantum x)) * b64_quantum x"

definition b64_is_inf :: "real \<Rightarrow> bool" where
  "b64_is_inf x = (2 ^ 1024 \<le> \<bar>b64_nearest x\<bar>)"

text \<open>
  Characters are 8-bit code points. \<^verbatim>\<open>str.isspace\<close> holds of the codes 9 to 13,
  28 to 32, 133 and 160 in that range; \<^verbatim>\<open>str.lower\<close> is modelled on the ASCII letters.
\<close>

definition is_space :: "char \<Rightarrow> bool" where
  "is_space c =
     (let n = (of_char c :: nat)
      in (9 \<le> n \<and> n \<le> 13) \<or> (28 \<le> n \<and> n \<le> 32) \<or> n = 133 \<or> n = 160)"

definition py_strip :: "string \<Rightarrow> string" where
  "py_strip text = rev (dropWhile is_space (rev (dropWhile is_space text)))"

definition lower_char :: "char \<Rightarrow> char" where
  "lower_char c =
     (let n = (of_char c :: nat)
      in if 65 \<le> n \<and> n \<le> 90 then char_of (n + 32) else c)"

definition py_lower :: "string \<Rightarrow> string" where
  "py_lower text = map lower_char text"

definition startswith :: "string \<Rightarrow> string \<Rightarrow> bool" where
  "startswith text w = (take (length w) text = w)"

text \<open>\<^verbatim>\<open>w in text\<close>: \<open>w\<close> occurs in \<open>text\<close> as a contiguous substring.\<close>

fun str_contains :: "string \<Rightarrow> string \<Rightarrow> bool" where
  "str_contains [] w = (w = [])"
| "str_contains (c # cs) w = (startswith (c # cs) w \<or> str_contains cs w)"

text \<open>
  \<^verbatim>\<open>text.count(w)\<close>: the number of non-overlapping occurrences of \<open>w\<close>, found from
  the left; for the empty \<open>w\<close> Python answers \<open>len(text) + 1\<close>.
\<close>

function str_count :: "string \<Rightarrow> string \<Rightarrow> nat" where
  "str_count text w =
     (if w = [] then length text + 1
      else if text = [] then 0
      else if startswith text w then 1 + str_count (drop (length w) text) w
      else str_count (tl text) w)"
  by pat_completeness auto
termination
  by (relation "measure (\<lambda>(text, w). length text)") auto

declare str_count.simps [simp del]

section \<open>Sentiment analysis\<close>

text \<open>
  The \<^verbatim>\<open>except\<close> branch of \<^verbatim>\<open>analyze_sentiment\<close>: the keyword-count score.
  Python's \<^verbatim>\<open>/\<close> on two ints is true division.
\<close>

definition keyword_score :: "string \<Rightarrow> real" where
  "keyword_score text =
     (let pos = sum_list (map (str_count (py_lower text)) POSITIVE_WORDS);
          neg = sum_list (map (str_count (py_lower text)) NEGATIVE_WORDS)
      in real_of_int (int pos - int neg) / real_of_int (int pos + int neg + 1))"

text \<open>
  \<^verbatim>\<open>analyze_sentiment\<close>. The two library scorers (TextBlob's polarity and VADER's
  compound score) are parameters; \<open>None\<close> is a scorer that raises, which the bare
  \<^verbatim>\<open>except\<close> turns into the keyword score.
\<close>

definition analyze_sentiment ::
  "(string \<Rightarrow> real option) \<Rightarrow> (string \<Rightarrow> real option) \<Rightarrow> string \<Rightarrow> real" where
  "analyze_sentiment textblob vader text =
     (if py_strip text = [] then 0
      else case textblob text of
             None \<Rightarrow> keyword_score text
           | Some polarity \<Rightarrow>
               (case vader text of
                  None \<Rightarrow> keyword_score text
                | Some compound \<Rightarrow> (polarity + compound) / 2))"

text \<open>Line 161: the label of an averaged score.\<close>

definition sentiment_label :: "real \<Rightarrow> sentiment" where
  "sentiment_label avg =
     (if avg > 2 / 10 then Bullish else if avg < - (2 / 10) then Bearish else Neutral)"

text \<open>The stocks a text mentions: by name, or by the symbol up to its first dot.\<close>

definition mentioned_in :: "(string \<times> string) list \<Rightarrow> string \<Rightarrow> string list" where
  "mentioned_in all_stocks text =
     map fst (filter (\<lambda>(s, n). str_contains (py_lower text) n \<or>
                  str_contains (py_lower text) (py_lower (takeWhile (\<lambda>c. c \<noteq> CHR ''.'') s)))
                all_stocks)"

text \<open>
  \<^verbatim>\<open>fetch_and_analyze_sentiment\<close>. \<open>get_text i\<close> is the joined news text of the
  \<open>i\<close>-th of the three draws, \<open>all_stocks\<close> the dict \<^verbatim>\<open>ALL_STOCKS\<close>. Python leaves
  the order of \<^verbatim>\<open>list(set(mentioned))\<close> open; the model lists the symbols in order
  of first mention.
\<close>

definition fetch_and_analyze_sentiment ::
  "(string \<Rightarrow> real option) \<Rightarrow> (string \<Rightarrow> real option) \<Rightarrow> (nat \<Rightarrow> string) \<Rightarrow>
   (string \<times> string) list \<Rightarrow> sentiment \<times> real \<times> string list" where
  "fetch_and_analyze_sentiment textblob vader get_text all_stocks =
     (let texts = map get_text [0, 1, 2];
          scores = map (analyze_sentiment textblob vader) texts;
          mentioned = concat (map (mentioned_in all_stocks) texts);
          avg = sum_list scores / real (length scores);
          sent = sentiment_label avg;
          uniq = (if remdups mentioned = [] then take 5 (map fst all_stocks)
                  else remdups mentioned)
      in (sent, avg, uniq))"

section \<open>Trading\<close>

text \<open>
  Line 203, the float \<^verbatim>\<open>(CAPITAL*RISK_PER_TRADE)/(atr*1.5)\<close>: the literal 0.01, both
  products and the quotient are rounded. \<open>None\<close> is an infinite quotient. A product
  \<^verbatim>\<open>atr*1.5\<close> that is infinite gives the quotient 0. \<open>atr\<close> is a numpy float, for
  which a division by zero gives an infinity too (no float other than 0 has the
  product 0 with 1.5).
\<close>

definition sizing_quotient :: "real \<Rightarrow> real option" where
  "sizing_quotient atr =
     (let budget = b64_nearest (CAPITAL * b64_nearest RISK_PER_TRADE);
          d = b64_nearest (atr * (15 / 10))
      in if b64_is_inf (atr * (15 / 10)) then Some 0
         else if d = 0 then None
         else if b64_is_inf (budget / d) then None
         else Some (b64_nearest (budget / d)))"

text \<open>
  Lines 201 to 207 of \<^verbatim>\<open>place_trade\<close>: the position dict that line 208 stores, or
  \<open>None\<close> where the function returns early. \<open>atr\<close> is what \<^verbatim>\<open>calculate_atr(df)\<close>
  returned (\<open>None\<close> when the indicator library raised; \<^verbatim>\<open>dropna\<close> leaves no NaN).
  \<^verbatim>\<open>int\<close> of an infinite quotient raises \<^verbatim>\<open>OverflowError\<close>, and
  \<^verbatim>\<open>df['Close'].iloc[-1]\<close> raises \<^verbatim>\<open>IndexError\<close> on an empty column.
\<close>

definition place_trade_order ::
  "signal \<Rightarrow> sentiment \<Rightarrow> real option \<Rightarrow> price_frame \<Rightarrow> error + position option" where
  "place_trade_order sig sent atr_opt df =
     (case atr_opt of
        None \<Rightarrow> Inr None
      | Some atr \<Rightarrow>
          if atr = 0 then Inr None
          else (case sizing_quotient atr of
                  None \<Rightarrow> Inl OverflowError
                | Some x \<Rightarrow>
                    let q = py_int x
                    in if q < 1 then Inr None
                       else if (sent = Bearish \<and> sig = BUY) \<or> (sent = Bullish \<and> sig = SELL)
                       then Inr None
                       else if Close df = [] then Inl IndexError
                       else let entry = last (Close df);
                                sl = (if sig = BUY then entry - atr * (15 / 10)
                                      else entry + atr * (15 / 10))
                            in Inr (Some \<lparr>signal = sig, qty = q, entry_price = entry,
                                           stop_loss = sl\<rparr>)))"

definition place_trade ::
  "string \<Rightarrow> signal \<Rightarrow> sentiment \<Rightarrow> real option \<Rightarrow> price_frame \<Rightarrow> bot_state \<Rightarrow>
   error + bot_state" where
  "place_trade symb sig sent atr_opt df w =
     (case place_trade_order sig sent atr_opt df of
        Inl e \<Rightarrow> Inl e
      | Inr None \<Rightarrow> Inr w
      | Inr (Some pos) \<Rightarrow>
          Inr (w\<lparr>active_positions := AList.update symb pos (active_positions w)\<rparr>))"

text \<open>
  Any sequence of calls of \<^verbatim>\<open>place_trade\<close>, each with its own arguments; an
  exception ends the sequence.
\<close>

fun place_trades ::
  "(string \<times> signal \<times> sentiment \<times> real option \<times> price_frame) list \<Rightarrow> bot_state \<Rightarrow>
   error + bot_state" where
  "place_trades [] w = Inr w"
| "place_trades ((symb, sig, sent, atr_opt, df) # calls) w =
     (case place_trade symb sig sent atr_opt df w of
        Inl e \<Rightarrow> Inl e
      | Inr w' \<Rightarrow> place_trades calls w')"

text \<open>Line 215: the profit or loss of closing \<open>pos\<close> at \<open>price\<close>.\<close>

definition realized_pnl :: "position \<Rightarrow> real \<Rightarrow> real" where
  "realized_pnl pos price =
     (if signal pos = BUY then real_of_int (qty pos) * (price - entry_price pos)
      else real_of_int (qty pos) * (entry_price pos - price))"

text \<open>\<^verbatim>\<open>trade_history.setdefault(today, [])\<close>: the day's list, empty for a new day.\<close>

definition todays_bucket :: "bot_state \<Rightarrow> date \<Rightarrow> closed_trade list" where
  "todays_bucket w today = (case map_of (trade_history w) today of None \<Rightarrow> [] | Some ts \<Rightarrow> ts)"

text \<open>
  \<^verbatim>\<open>exit_trade\<close>. \<open>today\<close> and \<open>tm\<close> are \<^verbatim>\<open>datetime.now().date()\<close> and
  \<^verbatim>\<open>datetime.now().strftime('%H:%M:%S')\<close>. A position dict is never empty, so
  \<^verbatim>\<open>if pos:\<close> tests that the pop found one.
\<close>

definition exit_trade :: "string \<Rightarrow> real \<Rightarrow> date \<Rightarrow> string \<Rightarrow> bot_state \<Rightarrow> bot_state" where
  "exit_trade symb price today tm w =
     (case map_of (active_positions w) symb of
        None \<Rightarrow> w
      | Some pos \<Rightarrow>
          w\<lparr>active_positions := AList.delete symb (active_positions w),
            trade_history :=
              AList.update today
                (todays_bucket w today @
                 [\<lparr>symbol = symb, trade_signal = signal pos, trade_qty = qty pos,
                   trade_entry_price = entry_price pos, exit_price = price,
                   pnl = realized_pnl pos price, exit_time = tm\<rparr>])
                (trade_history w)\<rparr>)"

text \<open>
  One round of the loop of \<^verbatim>\<open>monitor_positions\<close>, for one item \<open>(symb, pos)\<close> of the
  snapshot \<^verbatim>\<open>list(active_positions.items())\<close>. \<open>get_current_price\<close> is the price
  feed (\<open>None\<close>: no price), \<open>clock symb\<close> the day and time at which \<open>symb\<close> is handled.
\<close>

definition monitor_step ::
  "(string \<Rightarrow> real option) \<Rightarrow> (string \<Rightarrow> date \<times> string) \<Rightarrow> string \<times> position \<Rightarrow>
   bot_state \<Rightarrow> bot_state" where
  "monitor_step get_current_price clock item w =
     (case get_current_price (fst item) of
        None \<Rightarrow> w
      | Some price \<Rightarrow>
          if signal (snd item) = BUY \<and> price \<le> stop_loss (snd item)
          then exit_trade (fst item) price (fst (clock (fst item))) (snd (clock (fst item))) w
          else if signal (snd item) = SELL \<and> price \<ge> stop_loss (snd item)
          then exit_trade (fst item) price (fst (clock (fst item))) (snd (clock (fst item))) w
          else w)"

definition monitor_positions ::
  "(string \<Rightarrow> real option) \<Rightarrow> (string \<Rightarrow> date \<times> string) \<Rightarrow> bot_state \<Rightarrow> bot_state" where
  "monitor_positions get_current_price clock w =
     fold (monitor_step get_current_price clock) (active_positions w) w"

text \<open>
  Polling one instrument: a monitoring cycle in which the feed has a price for
  \<open>symb\<close> only.
\<close>

definition poll_and_maybe_close ::
  "string \<Rightarrow> real \<Rightarrow> date \<Rightarrow> string \<Rightarrow> bot_state \<Rightarrow> bot_state" where
  "poll_and_maybe_close symb price today tm w =
     monitor_positions (\<lambda>s. if s = symb then Some price else None) (\<lambda>s. (today, tm)) w"

text \<open>All closed trades of the history, day after day in the order of the keys.\<close>

definition all_trades :: "bot_state \<Rightarrow> closed_trade list" where
  "all_trades w = concat (map snd (trade_history w))"

definition report_keys :: "string list" where
  "report_keys = [''symbol'', ''signal'', ''qty'', ''entry_price'', ''exit_price'', ''pnl'',
                  ''exit_time'']"

text \<open>Line 239: the report's file name for a day.\<close>

definition report_filename :: "date \<Rightarrow> string" where
  "report_filename today = ''daily_trade_report_'' @ today @ ''.csv''"

text \<open>
  \<^verbatim>\<open>save_daily_report\<close>. \<open>csv_text keys rows\<close> is the text \<^verbatim>\<open>csv.DictWriter\<close>
  writes for a header and rows; the file is opened with mode \<^verbatim>\<open>'w'\<close>, which
  replaces what it held.
\<close>

definition save_daily_report ::
  "(string list \<Rightarrow> closed_trade list \<Rightarrow> string) \<Rightarrow> date \<Rightarrow> bot_state \<Rightarrow> bot_state" where
  "save_daily_report csv_text today w =
     (if trade_history w = [] then w
      else let filename = report_filename today
           in if all_trades w \<noteq> []
              then w\<lparr>files := AList.update filename (csv_text report_keys (all_trades w))
                                 (files w)\<rparr>
              else w)"

text \<open>Lines 255 and 256 of \<^verbatim>\<open>daily_trading\<close>: the signal for a backtest result.\<close>

definition trading_signal :: "real option \<Rightarrow> sentiment \<Rightarrow> signal option" where
  "trading_signal pnl_opt sent =
     (case pnl_opt of
        None \<Rightarrow> None
      | Some e \<Rightarrow>
          if e > 0 \<and> sent = Bullish then Some BUY
          else if e < 0 \<and> sent = Bearish then Some SELL
          else None)"

text \<open>
  The loop of \<^verbatim>\<open>daily_trading\<close> over the candidate stocks. \<open>backtest symb\<close> is the
  result of \<^verbatim>\<open>backtest_vwap_rsi\<close> (\<open>None\<close> for \<^verbatim>\<open>(None, None)\<close>), \<open>calculate_atr\<close>
  the indicator.
\<close>

fun daily_trading_loop ::
  "(string \<Rightarrow> (real \<times> price_frame) option) \<Rightarrow> (price_frame \<Rightarrow> real option) \<Rightarrow>
   sentiment \<Rightarrow> string list \<Rightarrow> bot_state \<Rightarrow> error + bot_state" where
  "daily_trading_loop backtest calculate_atr sent [] w = Inr w"
| "daily_trading_loop backtest calculate_atr sent (symb # stocks) w =
     (case backtest symb of
        None \<Rightarrow> daily_trading_loop backtest calculate_atr sent stocks w
      | Some (e, df) \<Rightarrow>
          (case trading_signal (Some e) sent of
             None \<Rightarrow> daily_trading_loop backtest calculate_atr sent stocks w
           | Some sig \<Rightarrow>
               (case place_trade symb sig sent (calculate_atr df) df w of
                  Inl err \<Rightarrow> Inl err
                | Inr w' \<Rightarrow> daily_trading_loop backtest calculate_atr sent stocks w')))"

definition daily_trading ::
  "(string \<Rightarrow> real option) \<Rightarrow> (string \<Rightarrow> real option) \<Rightarrow> (nat \<Rightarrow> string) \<Rightarrow>
   (string \<times> string) list \<Rightarrow> (string \<Rightarrow> (real \<times> price_frame) option) \<Rightarrow>
   (price_frame \<Rightarrow> real option) \<Rightarrow> bot_state \<Rightarrow> error + bot_state" where
  "daily_trading textblob vader get_text all_stocks backtest calculate_atr w =
     (case fetch_and_analyze_sentiment textblob vader get_text all_stocks of
        (sent, score, stocks) \<Rightarrow> daily_trading_loop backtest calculate_atr sent stocks w)"

text \<open>The open positions the ledger holds for one instrument.\<close>

definition positions_of :: "bot_state \<Rightarrow> string \<Rightarrow> position list" where
  "positions_of w symb = map snd (filter (\<lambda>item. fst item = symb) (active_positions w))"

section \<open>Binary64 rounding\<close>

lemma scale_large_numeral:
  "scale_large (numeral k) y q =
     (if 2 \<le> y then scale_large (pred_numeral k) (y / 2) (q * 2) else q)"
  by (simp add: numeral_eq_Suc)

lemma scale_small_numeral:
  "scale_small (numeral k) y q =
     (if y < 1 then scale_small (pred_numeral k) (y * 2) (q / 2) else q)"
  by (simp add: numeral_eq_Suc)

lemmas b64_eval = b64_nearest_def b64_quantum_def round_half_even_def Let_def
  scale_large_numeral scale_small_numeral

lemma scale_large_pos: "0 < q \<Longrightarrow> 0 < scale_large n y q"
  by (induction n arbitrary: y q) simp_all

lemma scale_small_pos: "0 < q \<Longrightarrow> 0 < scale_small n y q"
  by (induction n arbitrary: y q) simp_all

lemma b64_quantum_pos: "0 < b64_quantum x"
  by (simp add: b64_quantum_def scale_large_pos scale_small_pos)

text \<open>Below the subnormal range every doubling is taken, above the largest binade every halving.\<close>

lemma scale_small_all: "0 \<le> y \<Longrightarrow> y * 2 ^ n \<le> 1 \<Longrightarrow> scale_small n y q = q / 2 ^ n"
proof (induction n arbitrary: y q)
  case 0
  then show ?case by simp
next
  case (Suc n)
  from Suc.prems have step: "y * 2 * 2 ^ n \<le> 1" by (simp add: mult.assoc)
  have "(1::real) \<le> 2 ^ n" by simp
  with Suc.prems(1) have "y * 2 * 1 \<le> y * 2 * 2 ^ n"
    by (intro mult_left_mono) simp_all
  with step have "y < 1" by simp
  moreover note step
  ultimately show ?case using Suc.IH [of "y * 2" "q / 2"] Suc.prems(1) by simp
qed

lemma scale_large_all: "2 * 2 ^ n \<le> y \<Longrightarrow> scale_large n y q = q * 2 ^ n"
proof (induction n arbitrary: y q)
  case 0
  then show ?case by simp
next
  case (Suc n)
  from Suc.prems have p: "2 * (2 * 2 ^ n) \<le> y" by simp
  have o: "(1::real) \<le> 2 ^ n" by simp
  from p o have "2 \<le> y" by linarith
  moreover from p have "2 * 2 ^ n \<le> y / 2" by linarith
  ultimately show ?case using Suc.IH [of "y / 2" "q * 2"] by simp
qed

lemma round_half_even_nonneg: "0 \<le> t \<Longrightarrow> 0 \<le> round_half_even t"
  by (simp add: round_half_even_def Let_def)

lemma round_half_even_nonpos:
  assumes "t \<le> 0"
  shows "round_half_even t \<le> 0"
proof (cases "t = of_int \<lfloor>t\<rfloor>")
  case True
  then have "t - of_int \<lfloor>t\<rfloor> < 1 / 2" by simp
  with assms show ?thesis by (simp add: round_half_even_def Let_def)
next
  case False
  moreover have "of_int \<lfloor>t\<rfloor> \<le> t" by (rule of_int_floor_le)
  ultimately have "of_int \<lfloor>t\<rfloor> < t" by linarith
  with assms have "\<lfloor>t\<rfloor> < 0" by linarith
  then show ?thesis by (simp add: round_half_even_def Let_def)
qed

lemma b64_nearest_nonneg: "0 \<le> x \<Longrightarrow> 0 \<le> b64_nearest x"
  unfolding b64_nearest_def using b64_quantum_pos [of x]
  by (simp add: round_half_even_nonneg)

lemma b64_nearest_nonpos: "x \<le> 0 \<Longrightarrow> b64_nearest x \<le> 0"
  unfolding b64_nearest_def using b64_quantum_pos [of x]
  by (simp add: round_half_even_nonpos mult_le_0_iff divide_le_0_iff)

section \<open>Sizing: the quantity and the early returns\<close>

lemma py_int_nonneg: "0 \<le> x \<Longrightarrow> py_int x = \<lfloor>x\<rfloor>"
  by (simp add: py_int_def)

lemma py_int_nonpos: "x \<le> 0 \<Longrightarrow> py_int x < 1"
  unfolding py_int_def by (auto simp add: ceiling_less_iff)

text \<open>The risk budget \<^verbatim>\<open>CAPITAL*RISK_PER_TRADE\<close> is the float 1000.\<close>

lemma risk_per_trade_b64: "b64_nearest RISK_PER_TRADE = 5764607523034235 / 2 ^ 59"
  by (simp add: RISK_PER_TRADE_def b64_eval)

lemma risk_budget_b64: "b64_nearest (CAPITAL * b64_nearest RISK_PER_TRADE) = 1000"
  unfolding risk_per_trade_b64 by (simp add: CAPITAL_def b64_eval)

lemma sizing_quotient_eq:
  "sizing_quotient a =
     (if b64_is_inf (a * (15 / 10)) then Some 0
      else if b64_nearest (a * (15 / 10)) = 0 then None
      else if b64_is_inf (1000 / b64_nearest (a * (15 / 10))) then None
      else Some (b64_nearest (1000 / b64_nearest (a * (15 / 10)))))"
  by (simp add: sizing_quotient_def risk_budget_b64 Let_def)

lemma sizing_quotient_nonneg:
  assumes "0 < a" and "sizing_quotient a = Some x"
  shows "0 \<le> x"
proof -
  from assms(1) have "0 \<le> b64_nearest (a * (15 / 10))"
    by (simp add: b64_nearest_nonneg)
  then have "0 \<le> b64_nearest (1000 / b64_nearest (a * (15 / 10)))"
    by (simp add: b64_nearest_nonneg)
  with assms(2) show ?thesis
    by (auto simp add: sizing_quotient_eq split: if_splits)
qed

lemma sizing_quotient_nonpos:
  assumes "a < 0" and "sizing_quotient a = Some x"
  shows "x \<le> 0"
proof -
  from assms(1) have "b64_nearest (a * (15 / 10)) \<le> 0"
    by (simp add: b64_nearest_nonpos)
  then have "b64_nearest (1000 / b64_nearest (a * (15 / 10))) \<le> 0"
    by (simp add: b64_nearest_nonpos divide_le_0_iff)
  with assms(2) show ?thesis
    by (auto simp add: sizing_quotient_eq split: if_splits)
qed

text \<open>The quotient at the volatilities of the examples below.\<close>

lemma quotient_at_2: "sizing_quotient 2 = Some (5864062014805333 / 2 ^ 44)"
  by (simp add: sizing_quotient_eq b64_is_inf_def b64_eval)

lemma quotient_at_4: "sizing_quotient 4 = Some (5864062014805333 / 2 ^ 45)"
  by (simp add: sizing_quotient_eq b64_is_inf_def b64_eval)

lemma quotient_at_1000: "sizing_quotient 1000 = Some (6004799503160661 / 2 ^ 53)"
  by (simp add: sizing_quotient_eq b64_is_inf_def b64_eval)

lemma quotient_at_tie: "sizing_quotient (6004799503160662 / 2 ^ 53) = Some 1000"
  by (simp add: sizing_quotient_eq b64_is_inf_def b64_eval)

lemmas sizing_examples = quotient_at_2 quotient_at_4 quotient_at_1000 quotient_at_tie

text \<open>
  When \<^const>\<open>place_trade_order\<close> builds a position, and which one. For a negative
  \<open>atr\<close> the quotient is at most 0, so the check \<open>qty < 1\<close> returns.
\<close>

lemma order_Some_iff:
  "place_trade_order sig sent atr_opt df = Inr (Some pos) \<longleftrightarrow>
     (\<exists>a x. atr_opt = Some a \<and> 0 < a \<and> sizing_quotient a = Some x \<and> 1 \<le> \<lfloor>x\<rfloor> \<and>
          \<not> (sent = Bearish \<and> sig = BUY) \<and> \<not> (sent = Bullish \<and> sig = SELL) \<and>
          Close df \<noteq> [] \<and>
          pos = \<lparr>signal = sig, qty = \<lfloor>x\<rfloor>, entry_price = last (Close df),
                  stop_loss = (if sig = BUY then last (Close df) - a * (15 / 10)
                               else last (Close df) + a * (15 / 10))\<rparr>)"
proof (cases atr_opt)
  case None
  then show ?thesis by (simp add: place_trade_order_def)
next
  case (Some a)
  note atr = this
  show ?thesis
  proof (cases "sizing_quotient a")
    case None
    with atr show ?thesis by (simp add: place_trade_order_def)
  next
    case (Some x)
    consider "a < 0" | "a = 0" | "0 < a" by linarith
    then show ?thesis
    proof cases
      case 1
      then have "py_int x < 1"
        using py_int_nonpos sizing_quotient_nonpos [OF _ Some] by blast
      with 1 atr Some show ?thesis by (simp add: place_trade_order_def)
    next
      case 2
      with atr show ?thesis by (simp add: place_trade_order_def)
    next
      case 3
      then have "py_int x = \<lfloor>x\<rfloor>"
        using py_int_nonneg sizing_quotient_nonneg [OF _ Some] by blast
      with 3 atr Some show ?thesis by (auto simp add: place_trade_order_def Let_def)
    qed
  qed
qed

lemma order_None_if:
  assumes "atr_opt = None \<or>
           (\<exists>a. atr_opt = Some a \<and>
                (a = 0 \<or> (\<exists>x. sizing_quotient a = Some x \<and> (a < 0 \<or> \<lfloor>x\<rfloor> < 1))))"
  shows "place_trade_order sig sent atr_opt df = Inr None"
proof (cases atr_opt)
  case None
  then show ?thesis by (simp add: place_trade_order_def)
next
  case (Some a)
  note atr = this
  show ?thesis
  proof (cases "a = 0")
    case True
    with atr show ?thesis by (simp add: place_trade_order_def)
  next
    case False
    with assms atr obtain x where x: "sizing_quotient a = Some x"
      and small: "a < 0 \<or> \<lfloor>x\<rfloor> < 1"
      by auto
    have "py_int x < 1"
    proof (cases "a < 0")
      case True
      then show ?thesis using py_int_nonpos sizing_quotient_nonpos [OF _ x] by blast
    next
      case pos: False
      with False have "0 < a" by simp
      then have "py_int x = \<lfloor>x\<rfloor>"
        using py_int_nonneg sizing_quotient_nonneg [OF _ x] by blast
      with small pos show ?thesis by simp
    qed
    with atr x False show ?thesis by (simp add: place_trade_order_def)
  qed
qed

lemma order_overflow:
  assumes "atr_opt = Some a" and "a \<noteq> 0" and "sizing_quotient a = None"
  shows "place_trade_order sig sent atr_opt df = Inl OverflowError"
  using assms by (simp add: place_trade_order_def)

text \<open>A volatility so small that the quotient is beyond the largest float.\<close>

lemma quotient_overflows: "sizing_quotient (1 / 2 ^ 1070) = None"
proof -
  have small: "b64_quantum (1 / 2 ^ 1070 * (15 / 10)) = 1 / 2 ^ 1074"
  proof -
    have "scale_small 1022 (\<bar>1 / 2 ^ 1070 * (15 / 10)\<bar> :: real) (1 / 2 ^ 52) =
          1 / 2 ^ 52 / 2 ^ 1022"
      by (rule scale_small_all) simp_all
    then show ?thesis by (simp add: b64_quantum_def)
  qed
  have d: "b64_nearest (1 / 2 ^ 1070 * (15 / 10)) = 24 / 2 ^ 1074"
    unfolding b64_nearest_def small by (simp add: round_half_even_def)
  have large: "b64_quantum (1000 / (24 / 2 ^ 1074)) = 2 ^ 971"
  proof -
    have "scale_large 1023 (\<bar>1000 / (24 / 2 ^ 1074)\<bar> :: real) (1 / 2 ^ 52) =
          1 / 2 ^ 52 * 2 ^ 1023"
      by (rule scale_large_all) simp
    then show ?thesis by (simp add: b64_quantum_def)
  qed
  have inf: "b64_is_inf (1000 / (24 / 2 ^ 1074))"
    unfolding b64_is_inf_def b64_nearest_def large by (simp add: round_half_even_def)
  have fin: "\<not> b64_is_inf (1 / 2 ^ 1070 * (15 / 10))"
    unfolding b64_is_inf_def d by simp
  show ?thesis
    unfolding sizing_quotient_eq d using inf fin by simp
qed

text \<open>
  C2, as the program has it. The quantity is the truncation of the quotient that
  binary64 computes, not of the exact quotient: at the volatility
  \<open>6004799503160662 / 2^53\<close> (the float next above 2/3) the product with 1.5 lies
  halfway between 1 and the next float and rounds to 1, so the stored quantity is
  1000, while the floor of the exact quotient is 999.
\<close>

theorem risk_sizer_exact_floor_counterexample:
  "place_trade_order BUY Bullish (Some (6004799503160662 / 2 ^ 53))
     \<lparr>High = [], Low = [], Close = [100]\<rparr> =
     Inr (Some \<lparr>signal = BUY, qty = 1000, entry_price = 100,
                 stop_loss = 100 - 6004799503160662 / 2 ^ 53 * (15 / 10)\<rparr>) \<and>
   \<lfloor>(CAPITAL * RISK_PER_TRADE) / (6004799503160662 / 2 ^ 53 * (15 / 10))\<rfloor> = 999"
  by (simp add: place_trade_order_def py_int_def quotient_at_tie [simplified] CAPITAL_def
      RISK_PER_TRADE_def)

text \<open>
  C2, amended. The Risk Sizer (\<^const>\<open>place_trade_order\<close>, stored by
  \<^const>\<open>place_trade\<close>) builds an order only when the volatility estimate is available
  and strictly positive and the quotient \<open>capital * riskFraction / (atr * 1.5)\<close>, as
  binary64 computes it, is finite with floor at least 1; the order's quantity is then
  the floor of that computed quotient. When the estimate is unavailable or 0, or the
  computed quotient is finite and the estimate is negative or the floor is below 1,
  the function returns without an order and the ledger is left as it was; when the
  computed quotient is infinite the function raises and no order is built either.
\<close>

theorem risk_sizer_quantity:
  "(place_trade_order sig sent atr_opt df = Inr (Some pos) \<longrightarrow>
      (\<exists>a x. atr_opt = Some a \<and> 0 < a \<and> sizing_quotient a = Some x \<and>
             1 \<le> \<lfloor>x\<rfloor> \<and> qty pos = \<lfloor>x\<rfloor> \<and> 1 \<le> qty pos)) \<and>
   (atr_opt = None \<or>
      (\<exists>a. atr_opt = Some a \<and>
           (a = 0 \<or> (\<exists>x. sizing_quotient a = Some x \<and> (a < 0 \<or> \<lfloor>x\<rfloor> < 1)))) \<longrightarrow>
      place_trade_order sig sent atr_opt df = Inr None \<and>
      place_trade symb sig sent atr_opt df w = Inr w) \<and>
   ((\<exists>a. atr_opt = Some a \<and> a \<noteq> 0 \<and> sizing_quotient a = None) \<longrightarrow>
      place_trade_order sig sent atr_opt df = Inl OverflowError \<and>
      place_trade symb sig sent atr_opt df w = Inl OverflowError)"
proof (intro conjI impI)
  assume "place_trade_order sig sent atr_opt df = Inr (Some pos)"
  then show "\<exists>a x. atr_opt = Some a \<and> 0 < a \<and> sizing_quotient a = Some x \<and>
             1 \<le> \<lfloor>x\<rfloor> \<and> qty pos = \<lfloor>x\<rfloor> \<and> 1 \<le> qty pos"
    unfolding order_Some_iff by auto
next
  assume "atr_opt = None \<or>
      (\<exists>a. atr_opt = Some a \<and>
           (a = 0 \<or> (\<exists>x. sizing_quotient a = Some x \<and> (a < 0 \<or> \<lfloor>x\<rfloor> < 1))))"
  then show "place_trade_order sig sent atr_opt df = Inr None"
    by (rule order_None_if)
  then show "place_trade symb sig sent atr_opt df w = Inr w"
    by (simp add: place_trade_def)
next
  assume "\<exists>a. atr_opt = Some a \<and> a \<noteq> 0 \<and> sizing_quotient a = None"
  then show "place_trade_order sig sent atr_opt df = Inl OverflowError"
    using order_overflow by blast
  then show "place_trade symb sig sent atr_opt df w = Inl OverflowError"
    by (simp add: place_trade_def)
qed

theorem risk_sizer_quantity_witness:
  "place_trade_order BUY Bullish (Some 4) \<lparr>High = [104], Low = [99], Close = [100]\<rparr> =
     Inr (Some \<lparr>signal = BUY, qty = 166, entry_price = 100, stop_loss = 94\<rparr>) \<and>
   (\<exists>x. sizing_quotient 4 = Some x \<and> 1 \<le> \<lfloor>x\<rfloor> \<and> (166::int) = \<lfloor>x\<rfloor>) \<and>
   sizing_quotient 1000 = Some (6004799503160661 / 2 ^ 53) \<and>
   place_trade_order BUY Bullish (Some 1000) \<lparr>High = [104], Low = [99], Close = [100]\<rparr> =
     Inr None \<and>
   place_trade ''ABC'' BUY Bullish (Some 1000) \<lparr>High = [104], Low = [99], Close = [100]\<rparr>
     initial_state = Inr initial_state \<and>
   sizing_quotient (1 / 2 ^ 1070) = None \<and>
   place_trade ''ABC'' BUY Bullish (Some (1 / 2 ^ 1070))
     \<lparr>High = [104], Low = [99], Close = [100]\<rparr> initial_state = Inl OverflowError"
proof -
  let ?df = "\<lparr>High = [104], Low = [99], Close = [100::real]\<rparr>"
  let ?pos = "\<lparr>signal = BUY, qty = 166, entry_price = 100, stop_loss = 94\<rparr>"
  have made: "place_trade_order BUY Bullish (Some 4) ?df = Inr (Some ?pos)"
    by (simp add: place_trade_order_def py_int_def quotient_at_4)
  from risk_sizer_quantity [of BUY Bullish "Some 4" ?df ?pos] made
  have a: "\<exists>x. sizing_quotient 4 = Some x \<and> 1 \<le> \<lfloor>x\<rfloor> \<and> (166::int) = \<lfloor>x\<rfloor>"
    by auto
  have "\<lfloor>6004799503160661 / 2 ^ 53 :: real\<rfloor> < 1" by simp
  with quotient_at_1000
  have small: "\<exists>x. sizing_quotient 1000 = Some x \<and> ((1000::real) < 0 \<or> \<lfloor>x\<rfloor> < 1)"
    by blast
  from risk_sizer_quantity [of BUY Bullish "Some 1000" ?df _ "''ABC''" initial_state] small
  have b: "place_trade_order BUY Bullish (Some 1000) ?df = Inr None \<and>
           place_trade ''ABC'' BUY Bullish (Some 1000) ?df initial_state = Inr initial_state"
    by simp
  have "(1 / 2 ^ 1070 :: real) \<noteq> 0" by simp
  with quotient_overflows
  have inf: "\<exists>a. Some (1 / 2 ^ 1070 :: real) = Some a \<and> a \<noteq> 0 \<and> sizing_quotient a = None"
    by blast
  from risk_sizer_quantity [of BUY Bullish "Some (1 / 2 ^ 1070)" ?df _ "''ABC''" initial_state]
    inf
  have c: "place_trade ''ABC'' BUY Bullish (Some (1 / 2 ^ 1070)) ?df initial_state =
           Inl OverflowError"
    by blast
  from made a quotient_at_1000 b quotient_overflows c show ?thesis by blast
qed

section \<open>Signal and label\<close>

text \<open>
  C4. For every backtest result and sentiment, the signal computed in
  \<^verbatim>\<open>daily_trading\<close> is Long (BUY) exactly when the estimate exists, is positive and
  the sentiment is Bullish, Short (SELL) exactly when it exists, is negative and the
  sentiment is Bearish, and there is no signal in every other case.
\<close>

theorem signal_direction_policy:
  "(trading_signal pnl_opt sent = Some BUY \<longleftrightarrow>
      (\<exists>e. pnl_opt = Some e \<and> 0 < e \<and> sent = Bullish)) \<and>
   (trading_signal pnl_opt sent = Some SELL \<longleftrightarrow>
      (\<exists>e. pnl_opt = Some e \<and> e < 0 \<and> sent = Bearish)) \<and>
   (trading_signal pnl_opt sent = None \<longleftrightarrow>
      pnl_opt = None \<or> sent = Neutral \<or> pnl_opt = Some 0 \<or>
      (\<exists>e. pnl_opt = Some e \<and> 0 < e \<and> sent = Bearish) \<or>
      (\<exists>e. pnl_opt = Some e \<and> e < 0 \<and> sent = Bullish))"
  by (cases pnl_opt; cases sent) (auto simp add: trading_signal_def)

text \<open>
  C5. The label of an averaged score: Bullish exactly above 0.2, Bearish exactly
  below -0.2, Neutral exactly in between, the two thresholds and 0 included; and the
  label \<^verbatim>\<open>fetch_and_analyze_sentiment\<close> returns is this function of the score it
  returns.
\<close>

theorem label_thresholds:
  "(sentiment_label avg = Bullish \<longleftrightarrow> avg > 2 / 10) \<and>
   (sentiment_label avg = Bearish \<longleftrightarrow> avg < - (2 / 10)) \<and>
   (sentiment_label avg = Neutral \<longleftrightarrow> - (2 / 10) \<le> avg \<and> avg \<le> 2 / 10) \<and>
   sentiment_label (2 / 10) = Neutral \<and> sentiment_label (- (2 / 10)) = Neutral \<and>
   sentiment_label 0 = Neutral \<and>
   fst (fetch_and_analyze_sentiment textblob vader get_text all_stocks) =
     sentiment_label (fst (snd (fetch_and_analyze_sentiment textblob vader get_text all_stocks)))"
  by (auto simp add: sentiment_label_def fetch_and_analyze_sentiment_def Let_def)

section \<open>Sentiment score\<close>

lemma keyword_ratio_bounds:
  "- 1 < real_of_int (int p - int n) / real_of_int (int p + int n + 1) \<and>
   real_of_int (int p - int n) / real_of_int (int p + int n + 1) < 1"
proof -
  have d: "0 < real_of_int (int p + int n + 1)" by simp
  have "- real_of_int (int p + int n + 1) < real_of_int (int p - int n)" by simp
  moreover have "real_of_int (int p - int n) < real_of_int (int p + int n + 1)" by simp
  ultimately show ?thesis using d by (simp add: pos_less_divide_eq pos_divide_less_eq)
qed

lemma keyword_score_bounds: "- 1 < keyword_score text \<and> keyword_score text < 1"
  unfolding keyword_score_def Let_def by (rule keyword_ratio_bounds)

lemma py_strip_whitespace:
  assumes "\<forall>c \<in> set text. is_space c"
  shows "py_strip text = []"
proof -
  from assms have d: "dropWhile is_space text = []" by simp
  show ?thesis unfolding py_strip_def d by simp
qed

lemma analyze_sentiment_bounds:
  assumes "\<forall>t x. textblob t = Some x \<longrightarrow> - 1 \<le> x \<and> x \<le> 1"
    and "\<forall>t x. vader t = Some x \<longrightarrow> - 1 \<le> x \<and> x \<le> 1"
  shows "- 1 \<le> analyze_sentiment textblob vader text \<and>
         analyze_sentiment textblob vader text \<le> 1"
proof (cases "py_strip text = []")
  case True
  then show ?thesis by (simp add: analyze_sentiment_def)
next
  case False
  note kw = keyword_score_bounds [of "text"]
  show ?thesis
  proof (cases "textblob text")
    case None
    with False kw show ?thesis by (simp add: analyze_sentiment_def)
  next
    case (Some p)
    note p = this
    show ?thesis
    proof (cases "vader text")
      case None
      with False p kw show ?thesis by (simp add: analyze_sentiment_def)
    next
      case (Some c)
      from assms p Some have "- 1 \<le> p \<and> p \<le> 1" "- 1 \<le> c \<and> c \<le> 1" by blast+
      with False p Some show ?thesis by (simp add: analyze_sentiment_def)
    qed
  qed
qed

lemma fetch_score:
  "fst (snd (fetch_and_analyze_sentiment textblob vader get_text all_stocks)) =
     (analyze_sentiment textblob vader (get_text 0) +
      analyze_sentiment textblob vader (get_text 1) +
      analyze_sentiment textblob vader (get_text 2)) / 3"
  by (simp add: fetch_and_analyze_sentiment_def Let_def)

text \<open>
  C6. Provided each of the two library scorers answers within [-1, 1]: the score of
  a text lies in [-1, 1]; it is the mean of the two scorers when both answer and the
  keyword score when one of them fails; the keyword score lies strictly between -1
  and 1; an empty or whitespace-only text scores exactly 0; and the final score is
  the mean of the three per-draw scores and lies in [-1, 1].
\<close>

theorem sentiment_score_range:
  assumes "\<forall>t x. textblob t = Some x \<longrightarrow> - 1 \<le> x \<and> x \<le> 1"
    and "\<forall>t x. vader t = Some x \<longrightarrow> - 1 \<le> x \<and> x \<le> 1"
  shows "(- 1 \<le> analyze_sentiment textblob vader sample \<and>
          analyze_sentiment textblob vader sample \<le> 1) \<and>
         (- 1 < keyword_score sample \<and> keyword_score sample < 1) \<and>
         ((\<forall>c \<in> set sample. is_space c) \<longrightarrow> analyze_sentiment textblob vader sample = 0) \<and>
         (py_strip sample \<noteq> [] \<longrightarrow> textblob sample = Some p \<longrightarrow> vader sample = Some c \<longrightarrow>
            analyze_sentiment textblob vader sample = (p + c) / 2) \<and>
         (py_strip sample \<noteq> [] \<longrightarrow> textblob sample = None \<or> vader sample = None \<longrightarrow>
            analyze_sentiment textblob vader sample = keyword_score sample) \<and>
         fst (snd (fetch_and_analyze_sentiment textblob vader get_text all_stocks)) =
           (analyze_sentiment textblob vader (get_text 0) +
            analyze_sentiment textblob vader (get_text 1) +
            analyze_sentiment textblob vader (get_text 2)) / 3 \<and>
         - 1 \<le> fst (snd (fetch_and_analyze_sentiment textblob vader get_text all_stocks)) \<and>
         fst (snd (fetch_and_analyze_sentiment textblob vader get_text all_stocks)) \<le> 1"
proof -
  note b = analyze_sentiment_bounds [OF assms]
  have one: "- 1 \<le> analyze_sentiment textblob vader sample \<and>
             analyze_sentiment textblob vader sample \<le> 1"
    by (rule b)
  have blank: "(\<forall>c \<in> set sample. is_space c) \<longrightarrow> analyze_sentiment textblob vader sample = 0"
    by (simp add: analyze_sentiment_def py_strip_whitespace)
  have both: "py_strip sample \<noteq> [] \<longrightarrow> textblob sample = Some p \<longrightarrow> vader sample = Some c \<longrightarrow>
            analyze_sentiment textblob vader sample = (p + c) / 2"
    by (simp add: analyze_sentiment_def)
  have fallback: "py_strip sample \<noteq> [] \<longrightarrow> textblob sample = None \<or> vader sample = None \<longrightarrow>
            analyze_sentiment textblob vader sample = keyword_score sample"
    by (auto simp add: analyze_sentiment_def split: option.split)
  have mean: "- 1 \<le> fst (snd (fetch_and_analyze_sentiment textblob vader get_text all_stocks)) \<and>
         fst (snd (fetch_and_analyze_sentiment textblob vader get_text all_stocks)) \<le> 1"
    unfolding fetch_score using b [of "get_text 0"] b [of "get_text 1"] b [of "get_text 2"]
    by simp
  show ?thesis
    using one keyword_score_bounds [of sample] blank both fallback fetch_score mean by blast
qed


theorem sentiment_score_range_witness:
  "analyze_sentiment (\<lambda>t. Some (1 / 2)) (\<lambda>t. None) ''Rally then CRASH then gains'' = 1 / 4 \<and>
   analyze_sentiment (\<lambda>t. Some (1 / 2)) (\<lambda>t. None) ''  '' = 0 \<and>
   - 1 \<le> fst (snd (fetch_and_analyze_sentiment (\<lambda>t. Some (1 / 2)) (\<lambda>t. None)
                 (\<lambda>i. ''Rally then CRASH then gains'') [])) \<and>
   fst (snd (fetch_and_analyze_sentiment (\<lambda>t. Some (1 / 2)) (\<lambda>t. None)
                 (\<lambda>i. ''Rally then CRASH then gains'') [])) \<le> 1"
proof -
  let ?tb = "\<lambda>t :: string. Some (1 / 2 :: real)"
  let ?vd = "\<lambda>t :: string. (None :: real option)"
  have tb: "\<forall>t x. ?tb t = Some x \<longrightarrow> - 1 \<le> x \<and> x \<le> 1" by simp
  have vd: "\<forall>t x. ?vd t = Some x \<longrightarrow> - 1 \<le> x \<and> x \<le> 1" by simp
  have kw: "keyword_score ''Rally then CRASH then gains'' = 1 / 4" by code_simp
  have ne: "py_strip ''Rally then CRASH then gains'' \<noteq> []" by code_simp
  have sp: "\<forall>c \<in> set ''  ''. is_space c" by (simp add: is_space_def)
  note r = sentiment_score_range [OF tb vd]
  from r [where sample = "''Rally then CRASH then gains''"] kw ne
  have a: "analyze_sentiment ?tb ?vd ''Rally then CRASH then gains'' = 1 / 4" by simp
  from r [where sample = "''  ''"] sp
  have b: "analyze_sentiment ?tb ?vd ''  '' = 0" by blast
  from r [where get_text = "\<lambda>i. ''Rally then CRASH then gains''" and all_stocks = "[]"]
  have c: "- 1 \<le> fst (snd (fetch_and_analyze_sentiment ?tb ?vd
                 (\<lambda>i. ''Rally then CRASH then gains'') [])) \<and>
           fst (snd (fetch_and_analyze_sentiment ?tb ?vd
                 (\<lambda>i. ''Rally then CRASH then gains'') [])) \<le> 1"
    by blast
  from a b c show ?thesis by blast
qed

section \<open>The ledger: polling and closing\<close>

lemma fold_monitor_absent:
  "symb \<notin> fst ` set ps \<Longrightarrow>
   fold (monitor_step (\<lambda>s. if s = symb then Some price else None) clock) ps w = w"
  by (induction ps arbitrary: w) (auto simp add: monitor_step_def)

text \<open>
  With a feed that prices \<open>symb\<close> only, the loop over a snapshot with distinct keys
  does the one round for \<open>symb\<close>, if the snapshot has it.
\<close>

lemma fold_monitor_single:
  "distinct (map fst ps) \<Longrightarrow>
   fold (monitor_step (\<lambda>s. if s = symb then Some price else None) clock) ps w =
     (case map_of ps symb of
        None \<Rightarrow> w
      | Some pos \<Rightarrow>
          monitor_step (\<lambda>s. if s = symb then Some price else None) clock (symb, pos) w)"
proof (induction ps arbitrary: w)
  case Nil
  then show ?case by simp
next
  case (Cons item ps)
  show ?case
  proof (cases "fst item = symb")
    case True
    with Cons.prems have "symb \<notin> fst ` set ps" by auto
    then show ?thesis using True by (cases item) (simp add: fold_monitor_absent)
  next
    case False
    then have "monitor_step (\<lambda>s. if s = symb then Some price else None) clock item w = w"
      by (simp add: monitor_step_def)
    with Cons False show ?thesis by (cases item) simp
  qed
qed

lemma poll_eq:
  assumes "distinct (map fst (active_positions w))"
  shows "poll_and_maybe_close symb price today tm w =
     (case map_of (active_positions w) symb of
        None \<Rightarrow> w
      | Some pos \<Rightarrow>
          if (signal pos = BUY \<and> price \<le> stop_loss pos) \<or>
             (signal pos = SELL \<and> stop_loss pos \<le> price)
          then exit_trade symb price today tm w else w)"
  unfolding poll_and_maybe_close_def monitor_positions_def
  by (simp add: fold_monitor_single [OF assms] monitor_step_def split: option.split)

lemma exit_trade_present:
  "map_of (active_positions w) symb = Some pos \<Longrightarrow>
   exit_trade symb price today tm w =
     w\<lparr>active_positions := AList.delete symb (active_positions w),
       trade_history :=
         AList.update today
           (todays_bucket w today @
            [\<lparr>symbol = symb, trade_signal = signal pos, trade_qty = qty pos,
              trade_entry_price = entry_price pos, exit_price = price,
              pnl = realized_pnl pos price, exit_time = tm\<rparr>])
           (trade_history w)\<rparr>"
  by (simp add: exit_trade_def)

lemma exit_trade_absent:
  "map_of (active_positions w) symb = None \<Longrightarrow> exit_trade symb price today tm w = w"
  by (simp add: exit_trade_def)

lemma exit_trade_closed:
  "map_of (active_positions (exit_trade symb price today tm w)) symb = None"
  by (simp add: exit_trade_def AList.delete_conv' split: option.split)

lemma exit_trade_distinct:
  "distinct (map fst (active_positions w)) \<Longrightarrow>
   distinct (map fst (active_positions (exit_trade symb price today tm w)))"
  by (simp add: exit_trade_def AList.distinct_delete split: option.split)

lemma bucket_append_length:
  "length (concat (map snd (AList.update k
      ((case map_of h k of None \<Rightarrow> [] | Some ts \<Rightarrow> ts) @ [t]) h))) =
   length (concat (map snd h)) + 1"
  by (induction h) auto

lemma exit_trade_count:
  "map_of (active_positions w) symb = Some pos \<Longrightarrow>
   length (all_trades (exit_trade symb price today tm w)) = length (all_trades w) + 1"
  by (simp add: exit_trade_def all_trades_def todays_bucket_def bucket_append_length)

lemma poll_distinct:
  assumes "distinct (map fst (active_positions w))"
  shows "distinct (map fst (active_positions (poll_and_maybe_close symb price today tm w)))"
  using assms exit_trade_distinct [OF assms]
  by (simp add: poll_eq [OF assms] split: option.split)

lemma poll_absent:
  assumes "distinct (map fst (active_positions w))"
    and "map_of (active_positions w) symb = None"
  shows "poll_and_maybe_close symb price today tm w = w"
  using assms(2) by (simp add: poll_eq [OF assms(1)])

text \<open>
  C7. Polling an instrument that has no open position changes nothing. For an open
  position, the poll closes it exactly when the position is Long and the price is at
  or below the stop, or Short and the price is at or above the stop: the position is
  removed and exactly one closed trade is appended to the day's list; otherwise the
  state is unchanged. Once the instrument has no position, every further poll of it
  is a no-op and appends nothing.
\<close>

theorem poll_and_maybe_close_behaviour:
  assumes "distinct (map fst (active_positions w))"
  shows "(map_of (active_positions w) symb = None \<longrightarrow>
            poll_and_maybe_close symb price today tm w = w) \<and>
         (map_of (active_positions w) symb = Some pos \<longrightarrow>
            (if (signal pos = BUY \<and> price \<le> stop_loss pos) \<or>
                (signal pos = SELL \<and> stop_loss pos \<le> price)
             then poll_and_maybe_close symb price today tm w =
                    w\<lparr>active_positions := AList.delete symb (active_positions w),
                      trade_history :=
                        AList.update today
                          (todays_bucket w today @
                           [\<lparr>symbol = symb, trade_signal = signal pos, trade_qty = qty pos,
                             trade_entry_price = entry_price pos, exit_price = price,
                             pnl = realized_pnl pos price, exit_time = tm\<rparr>])
                          (trade_history w)\<rparr> \<and>
                  map_of (active_positions (poll_and_maybe_close symb price today tm w)) symb =
                    None \<and>
                  length (all_trades (poll_and_maybe_close symb price today tm w)) =
                    length (all_trades w) + 1
             else poll_and_maybe_close symb price today tm w = w)) \<and>
         (map_of (active_positions (poll_and_maybe_close symb price today tm w)) symb = None \<longrightarrow>
            poll_and_maybe_close symb price' today' tm'
              (poll_and_maybe_close symb price today tm w) =
            poll_and_maybe_close symb price today tm w)"
proof (intro conjI impI)
  assume "map_of (active_positions w) symb = None"
  then show "poll_and_maybe_close symb price today tm w = w"
    by (rule poll_absent [OF assms])
next
  assume present: "map_of (active_positions w) symb = Some pos"
  show "if (signal pos = BUY \<and> price \<le> stop_loss pos) \<or>
           (signal pos = SELL \<and> stop_loss pos \<le> price)
        then poll_and_maybe_close symb price today tm w =
               w\<lparr>active_positions := AList.delete symb (active_positions w),
                 trade_history :=
                   AList.update today
                     (todays_bucket w today @
                      [\<lparr>symbol = symb, trade_signal = signal pos, trade_qty = qty pos,
                        trade_entry_price = entry_price pos, exit_price = price,
                        pnl = realized_pnl pos price, exit_time = tm\<rparr>])
                     (trade_history w)\<rparr> \<and>
             map_of (active_positions (poll_and_maybe_close symb price today tm w)) symb =
               None \<and>
             length (all_trades (poll_and_maybe_close symb price today tm w)) =
               length (all_trades w) + 1
        else poll_and_maybe_close symb price today tm w = w"
  proof (cases "(signal pos = BUY \<and> price \<le> stop_loss pos) \<or>
                (signal pos = SELL \<and> stop_loss pos \<le> price)")
    case True
    with present have p: "poll_and_maybe_close symb price today tm w =
                          exit_trade symb price today tm w"
      by (simp add: poll_eq [OF assms])
    have a: "poll_and_maybe_close symb price today tm w =
               w\<lparr>active_positions := AList.delete symb (active_positions w),
                 trade_history :=
                   AList.update today
                     (todays_bucket w today @
                      [\<lparr>symbol = symb, trade_signal = signal pos, trade_qty = qty pos,
                        trade_entry_price = entry_price pos, exit_price = price,
                        pnl = realized_pnl pos price, exit_time = tm\<rparr>])
                     (trade_history w)\<rparr>"
      unfolding p by (rule exit_trade_present [OF present])
    have b: "map_of (active_positions (poll_and_maybe_close symb price today tm w)) symb = None"
      unfolding p by (rule exit_trade_closed)
    have c: "length (all_trades (poll_and_maybe_close symb price today tm w)) =
             length (all_trades w) + 1"
      unfolding p by (rule exit_trade_count [OF present])
    show ?thesis
      unfolding if_P [OF True] by (rule conjI [OF a conjI [OF b c]])
  next
    case False
    with present have q: "poll_and_maybe_close symb price today tm w = w"
      by (auto simp add: poll_eq [OF assms])
    show ?thesis
      unfolding if_not_P [OF False] by (rule q)
  qed
next
  assume "map_of (active_positions (poll_and_maybe_close symb price today tm w)) symb = None"
  then show "poll_and_maybe_close symb price' today' tm'
              (poll_and_maybe_close symb price today tm w) =
            poll_and_maybe_close symb price today tm w"
    by (rule poll_absent [OF poll_distinct [OF assms]])
qed

theorem poll_and_maybe_close_behaviour_witness:
  "poll_and_maybe_close ''XYZ'' 96 ''2024-01-02'' ''10:00:00''
     \<lparr>active_positions =
        [(''ABC'', \<lparr>signal = BUY, qty = 333, entry_price = 100, stop_loss = 97\<rparr>)],
      trade_history = [], files = []\<rparr> =
     \<lparr>active_positions =
        [(''ABC'', \<lparr>signal = BUY, qty = 333, entry_price = 100, stop_loss = 97\<rparr>)],
      trade_history = [], files = []\<rparr> \<and>
   poll_and_maybe_close ''ABC'' 98 ''2024-01-02'' ''10:00:00''
     \<lparr>active_positions =
        [(''ABC'', \<lparr>signal = BUY, qty = 333, entry_price = 100, stop_loss = 97\<rparr>)],
      trade_history = [], files = []\<rparr> =
     \<lparr>active_positions =
        [(''ABC'', \<lparr>signal = BUY, qty = 333, entry_price = 100, stop_loss = 97\<rparr>)],
      trade_history = [], files = []\<rparr> \<and>
   poll_and_maybe_close ''ABC'' 96 ''2024-01-02'' ''10:00:00''
     \<lparr>active_positions =
        [(''ABC'', \<lparr>signal = BUY, qty = 333, entry_price = 100, stop_loss = 97\<rparr>)],
      trade_history = [], files = []\<rparr> =
     \<lparr>active_positions = [],
      trade_history =
        [(''2024-01-02'',
          [\<lparr>symbol = ''ABC'', trade_signal = BUY, trade_qty = 333, trade_entry_price = 100,
            exit_price = 96, pnl = - 1332, exit_time = ''10:00:00''\<rparr>])],
      files = []\<rparr> \<and>
   poll_and_maybe_close ''ABC'' 50 ''2024-01-02'' ''10:01:00''
     (poll_and_maybe_close ''ABC'' 96 ''2024-01-02'' ''10:00:00''
        \<lparr>active_positions =
           [(''ABC'', \<lparr>signal = BUY, qty = 333, entry_price = 100, stop_loss = 97\<rparr>)],
         trade_history = [], files = []\<rparr>) =
     poll_and_maybe_close ''ABC'' 96 ''2024-01-02'' ''10:00:00''
        \<lparr>active_positions =
           [(''ABC'', \<lparr>signal = BUY, qty = 333, entry_price = 100, stop_loss = 97\<rparr>)],
         trade_history = [], files = []\<rparr>"
proof -
  let ?pos = "\<lparr>signal = BUY, qty = 333, entry_price = 100, stop_loss = 97\<rparr>"
  let ?w = "\<lparr>active_positions = [(''ABC'', ?pos)], trade_history = [], files = []\<rparr>"
  have d: "distinct (map fst (active_positions ?w))" by simp
  have absent: "map_of (active_positions ?w) ''XYZ'' = None" by simp
  have present: "map_of (active_positions ?w) ''ABC'' = Some ?pos" by simp
  note r = poll_and_maybe_close_behaviour [OF d]
  from r [where symb = "''XYZ''" and price = 96] absent
  have a: "poll_and_maybe_close ''XYZ'' 96 ''2024-01-02'' ''10:00:00'' ?w = ?w" by blast
  from r [where symb = "''ABC''" and price = 98 and pos = ?pos
            and today = "''2024-01-02''" and tm = "''10:00:00''"] present
  have b: "poll_and_maybe_close ''ABC'' 98 ''2024-01-02'' ''10:00:00'' ?w = ?w" by simp
  note r96 = r [where symb = "''ABC''" and price = 96 and pos = ?pos
                  and today = "''2024-01-02''" and tm = "''10:00:00''"
                  and price' = 50 and today' = "''2024-01-02''" and tm' = "''10:01:00''"]
  from r96 present
  have c: "poll_and_maybe_close ''ABC'' 96 ''2024-01-02'' ''10:00:00'' ?w =
             \<lparr>active_positions = [],
              trade_history =
                [(''2024-01-02'',
                  [\<lparr>symbol = ''ABC'', trade_signal = BUY, trade_qty = 333,
                    trade_entry_price = 100, exit_price = 96, pnl = - 1332,
                    exit_time = ''10:00:00''\<rparr>])],
              files = []\<rparr>"
    by (simp add: todays_bucket_def realized_pnl_def AList.delete_eq)
  have n: "map_of (active_positions
             (poll_and_maybe_close ''ABC'' 96 ''2024-01-02'' ''10:00:00'' ?w)) ''ABC'' = None"
    unfolding c by simp
  from r96 n
  have e: "poll_and_maybe_close ''ABC'' 50 ''2024-01-02'' ''10:01:00''
              (poll_and_maybe_close ''ABC'' 96 ''2024-01-02'' ''10:00:00'' ?w) =
            poll_and_maybe_close ''ABC'' 96 ''2024-01-02'' ''10:00:00'' ?w"
    by blast
  from a b c e show ?thesis by (intro conjI)
qed


section \<open>Entry, stop and exit prices\<close>

lemma poll_breach:
  assumes "distinct (map fst (active_positions w))"
    and "map_of (active_positions w) symb = Some pos"
    and "(signal pos = BUY \<and> price \<le> stop_loss pos) \<or>
         (signal pos = SELL \<and> stop_loss pos \<le> price)"
  shows "poll_and_maybe_close symb price today tm w = exit_trade symb price today tm w"
  using assms(2,3) by (auto simp add: poll_eq [OF assms(1)])

lemma exit_trade_bucket:
  assumes "map_of (active_positions w) symb = Some pos"
  shows "map_of (trade_history (exit_trade symb price today tm w)) today =
           Some (todays_bucket w today @
                 [\<lparr>symbol = symb, trade_signal = signal pos, trade_qty = qty pos,
                   trade_entry_price = entry_price pos, exit_price = price,
                   pnl = realized_pnl pos price, exit_time = tm\<rparr>])"
  by (simp add: exit_trade_present [OF assms] AList.update_conv')

lemma place_trade_stores:
  assumes "place_trade_order sig sent atr_opt df = Inr (Some pos)"
  shows "place_trade symb sig sent atr_opt df w =
           Inr (w\<lparr>active_positions := AList.update symb pos (active_positions w)\<rparr>)"
  using assms by (simp add: place_trade_def)

lemma stop_distance_long:
  assumes "place_trade_order BUY sent (Some a) df = Inr (Some pos)"
    and "price < stop_loss pos"
  shows "real_of_int (qty pos) * (15 / 10) * a < - realized_pnl pos price"
proof -
  from assms(1) have a: "0 < a" and q: "1 \<le> qty pos"
    and s: "signal pos = BUY" "stop_loss pos = entry_price pos - a * (15 / 10)"
    unfolding order_Some_iff by auto
  from assms(2) s have "(15 / 10) * a < entry_price pos - price" by simp
  moreover from q have "0 < real_of_int (qty pos)" by simp
  ultimately have "real_of_int (qty pos) * ((15 / 10) * a) <
                   real_of_int (qty pos) * (entry_price pos - price)"
    by (rule mult_strict_left_mono)
  then show ?thesis using s by (simp add: realized_pnl_def algebra_simps)
qed

lemma stop_distance_short:
  assumes "place_trade_order SELL sent (Some a) df = Inr (Some pos)"
    and "stop_loss pos < price"
  shows "real_of_int (qty pos) * (15 / 10) * a < - realized_pnl pos price"
proof -
  from assms(1) have a: "0 < a" and q: "1 \<le> qty pos"
    and s: "signal pos = SELL" "stop_loss pos = entry_price pos + a * (15 / 10)"
    unfolding order_Some_iff by auto
  from assms(2) s have "(15 / 10) * a < price - entry_price pos" by simp
  moreover from q have "0 < real_of_int (qty pos)" by simp
  ultimately have "real_of_int (qty pos) * ((15 / 10) * a) <
                   real_of_int (qty pos) * (price - entry_price pos)"
    by (rule mult_strict_left_mono)
  then show ?thesis using s by (simp add: realized_pnl_def algebra_simps)
qed

lemma order_long_example:
  "place_trade_order BUY Bullish (Some 2) \<lparr>High = [], Low = [], Close = [100]\<rparr> =
     Inr (Some \<lparr>signal = BUY, qty = 333, entry_price = 100, stop_loss = 97\<rparr>)"
  by (simp add: place_trade_order_def py_int_def sizing_examples)

lemma order_short_example:
  "place_trade_order SELL Bearish (Some 2) \<lparr>High = [], Low = [], Close = [100]\<rparr> =
     Inr (Some \<lparr>signal = SELL, qty = 333, entry_price = 100, stop_loss = 103\<rparr>)"
  by (simp add: place_trade_order_def py_int_def sizing_examples)

text \<open>
  C10. On a stop-loss breach the closed trade records the polled price itself as
  its exit price, not the stop level: for a Long position polled at \<open>price\<close> at or
  below the stop, the trade has \<open>exit_price = price\<close> and
  \<open>pnl = qty * (price - entry_price)\<close>, and for a Short position polled at or above
  the stop, \<open>pnl = qty * (entry_price - price)\<close>. So for a position built by
  \<^verbatim>\<open>place_trade\<close> with volatility \<open>atr\<close>, every polled price strictly beyond the
  stop gives a loss strictly above \<open>qty * 1.5 * atr\<close>, and there are such prices at
  which the loss exceeds \<open>CAPITAL * RISK_PER_TRADE\<close>.
\<close>

theorem exit_price_is_polled_price:
  assumes "distinct (map fst (active_positions w))"
  shows "(map_of (active_positions w) symb = Some pos \<longrightarrow> signal pos = BUY \<longrightarrow>
            price \<le> stop_loss pos \<longrightarrow>
            map_of (trade_history (poll_and_maybe_close symb price today tm w)) today =
              Some (todays_bucket w today @
                    [\<lparr>symbol = symb, trade_signal = BUY, trade_qty = qty pos,
                      trade_entry_price = entry_price pos, exit_price = price,
                      pnl = real_of_int (qty pos) * (price - entry_price pos),
                      exit_time = tm\<rparr>])) \<and>
         (map_of (active_positions w) symb = Some pos \<longrightarrow> signal pos = SELL \<longrightarrow>
            stop_loss pos \<le> price \<longrightarrow>
            map_of (trade_history (poll_and_maybe_close symb price today tm w)) today =
              Some (todays_bucket w today @
                    [\<lparr>symbol = symb, trade_signal = SELL, trade_qty = qty pos,
                      trade_entry_price = entry_price pos, exit_price = price,
                      pnl = real_of_int (qty pos) * (entry_price pos - price),
                      exit_time = tm\<rparr>])) \<and>
         (place_trade_order BUY sent (Some atr) df = Inr (Some pos) \<longrightarrow>
            price < stop_loss pos \<longrightarrow>
            real_of_int (qty pos) * (15 / 10) * atr <
              - (real_of_int (qty pos) * (price - entry_price pos))) \<and>
         (place_trade_order SELL sent (Some atr) df = Inr (Some pos) \<longrightarrow>
            stop_loss pos < price \<longrightarrow>
            real_of_int (qty pos) * (15 / 10) * atr <
              - (real_of_int (qty pos) * (entry_price pos - price))) \<and>
         (\<exists>a d p q. place_trade_order BUY Bullish (Some a) d = Inr (Some p) \<and>
            q < stop_loss p \<and>
            CAPITAL * RISK_PER_TRADE < - (real_of_int (qty p) * (q - entry_price p))) \<and>
         (\<exists>a d p q. place_trade_order SELL Bearish (Some a) d = Inr (Some p) \<and>
            stop_loss p < q \<and>
            CAPITAL * RISK_PER_TRADE < - (real_of_int (qty p) * (entry_price p - q)))"
proof (intro conjI impI)
  assume present: "map_of (active_positions w) symb = Some pos"
    and long: "signal pos = BUY" and breach: "price \<le> stop_loss pos"
  then have "poll_and_maybe_close symb price today tm w = exit_trade symb price today tm w"
    using poll_breach [OF assms present] by blast
  then show "map_of (trade_history (poll_and_maybe_close symb price today tm w)) today =
              Some (todays_bucket w today @
                    [\<lparr>symbol = symb, trade_signal = BUY, trade_qty = qty pos,
                      trade_entry_price = entry_price pos, exit_price = price,
                      pnl = real_of_int (qty pos) * (price - entry_price pos),
                      exit_time = tm\<rparr>])"
    using long by (simp add: exit_trade_bucket [OF present] realized_pnl_def)
next
  assume present: "map_of (active_positions w) symb = Some pos"
    and short: "signal pos = SELL" and breach: "stop_loss pos \<le> price"
  then have "poll_and_maybe_close symb price today tm w = exit_trade symb price today tm w"
    using poll_breach [OF assms present] by blast
  then show "map_of (trade_history (poll_and_maybe_close symb price today tm w)) today =
              Some (todays_bucket w today @
                    [\<lparr>symbol = symb, trade_signal = SELL, trade_qty = qty pos,
                      trade_entry_price = entry_price pos, exit_price = price,
                      pnl = real_of_int (qty pos) * (entry_price pos - price),
                      exit_time = tm\<rparr>])"
    using short by (simp add: exit_trade_bucket [OF present] realized_pnl_def)
next
  assume o: "place_trade_order BUY sent (Some atr) df = Inr (Some pos)"
    and b: "price < stop_loss pos"
  from o have "signal pos = BUY" unfolding order_Some_iff by auto
  with stop_distance_long [OF o b]
  show "real_of_int (qty pos) * (15 / 10) * atr <
          - (real_of_int (qty pos) * (price - entry_price pos))"
    by (simp add: realized_pnl_def)
next
  assume o: "place_trade_order SELL sent (Some atr) df = Inr (Some pos)"
    and b: "stop_loss pos < price"
  from o have "signal pos = SELL" unfolding order_Some_iff by auto
  with stop_distance_short [OF o b]
  show "real_of_int (qty pos) * (15 / 10) * atr <
          - (real_of_int (qty pos) * (entry_price pos - price))"
    by (simp add: realized_pnl_def)
next
  let ?p = "\<lparr>signal = BUY, qty = 333, entry_price = 100, stop_loss = 97\<rparr>"
  have "(90::real) < stop_loss ?p \<and>
        CAPITAL * RISK_PER_TRADE < - (real_of_int (qty ?p) * (90 - entry_price ?p))"
    by (simp add: CAPITAL_def RISK_PER_TRADE_def)
  with order_long_example
  show "\<exists>a d p q. place_trade_order BUY Bullish (Some a) d = Inr (Some p) \<and>
            q < stop_loss p \<and>
            CAPITAL * RISK_PER_TRADE < - (real_of_int (qty p) * (q - entry_price p))"
    by blast
next
  let ?p = "\<lparr>signal = SELL, qty = 333, entry_price = 100, stop_loss = 103\<rparr>"
  have "stop_loss ?p < (110::real) \<and>
        CAPITAL * RISK_PER_TRADE < - (real_of_int (qty ?p) * (entry_price ?p - 110))"
    by (simp add: CAPITAL_def RISK_PER_TRADE_def)
  with order_short_example
  show "\<exists>a d p q. place_trade_order SELL Bearish (Some a) d = Inr (Some p) \<and>
            stop_loss p < q \<and>
            CAPITAL * RISK_PER_TRADE < - (real_of_int (qty p) * (entry_price p - q))"
    by blast
qed

theorem exit_price_is_polled_price_witness:
  "map_of (trade_history (poll_and_maybe_close ''ABC'' 90 ''2024-01-02'' ''10:00:00''
      \<lparr>active_positions =
         [(''ABC'', \<lparr>signal = BUY, qty = 333, entry_price = 100, stop_loss = 97\<rparr>)],
       trade_history = [], files = []\<rparr>)) ''2024-01-02'' =
     Some [\<lparr>symbol = ''ABC'', trade_signal = BUY, trade_qty = 333, trade_entry_price = 100,
            exit_price = 90, pnl = - 3330, exit_time = ''10:00:00''\<rparr>] \<and>
   place_trade_order BUY Bullish (Some 2) \<lparr>High = [], Low = [], Close = [100]\<rparr> =
     Inr (Some \<lparr>signal = BUY, qty = 333, entry_price = 100, stop_loss = 97\<rparr>) \<and>
   real_of_int 333 * (15 / 10) * 2 < - (real_of_int 333 * (90 - 100))"
proof -
  let ?pos = "\<lparr>signal = BUY, qty = 333, entry_price = 100, stop_loss = 97\<rparr>"
  let ?w = "\<lparr>active_positions = [(''ABC'', ?pos)], trade_history = [], files = []\<rparr>"
  let ?df = "\<lparr>High = [], Low = [], Close = [100::real]\<rparr>"
  have d: "distinct (map fst (active_positions ?w))" by simp
  have present: "map_of (active_positions ?w) ''ABC'' = Some ?pos" by simp
  note r = exit_price_is_polled_price [OF d, where symb = "''ABC''" and pos = ?pos
             and price = 90 and today = "''2024-01-02''" and tm = "''10:00:00''"
             and sent = Bullish and atr = 2 and df = ?df]
  from r present
  have a: "map_of (trade_history (poll_and_maybe_close ''ABC'' 90 ''2024-01-02'' ''10:00:00''
             ?w)) ''2024-01-02'' =
           Some [\<lparr>symbol = ''ABC'', trade_signal = BUY, trade_qty = 333,
                  trade_entry_price = 100, exit_price = 90, pnl = - 3330,
                  exit_time = ''10:00:00''\<rparr>]"
    by (simp add: todays_bucket_def)
  from r order_long_example
  have b: "real_of_int 333 * (15 / 10) * 2 < - (real_of_int 333 * (90 - 100))"
    by simp
  from a order_long_example b show ?thesis by (intro conjI)
qed

text \<open>
  C3. Every position \<^verbatim>\<open>place_trade\<close> builds has the last close of the price
  series as its entry price and its stop 1.5 times the volatility below the entry
  for Long (BUY) and above it for Short (SELL). Round trip: a Long position opened
  at a last close of 100 with volatility 2 has quantity 333 and stop 97, and polling
  it at 96 removes it and appends a closed trade with
  \<open>pnl = 333 * (96 - 100)\<close>, which is negative.
\<close>

theorem entry_and_stop_loss:
  assumes "distinct (map fst (active_positions w))"
  shows "(place_trade_order sig sent atr_opt df = Inr (Some pos) \<longrightarrow>
            (\<exists>a. atr_opt = Some a \<and> Close df \<noteq> [] \<and> signal pos = sig \<and>
                 entry_price pos = last (Close df) \<and>
                 stop_loss pos = (if sig = BUY then entry_price pos - (15 / 10) * a
                                  else entry_price pos + (15 / 10) * a))) \<and>
         (Close df \<noteq> [] \<longrightarrow> last (Close df) = 100 \<longrightarrow> sent \<noteq> Bearish \<longrightarrow>
            (\<exists>w'. place_trade symb BUY sent (Some 2) df w = Inr w' \<and>
                  map_of (active_positions w') symb =
                    Some \<lparr>signal = BUY, qty = 333, entry_price = 100, stop_loss = 97\<rparr> \<and>
                  map_of (active_positions
                    (poll_and_maybe_close symb 96 today tm w')) symb = None \<and>
                  map_of (trade_history
                    (poll_and_maybe_close symb 96 today tm w')) today =
                    Some (todays_bucket w today @
                          [\<lparr>symbol = symb, trade_signal = BUY, trade_qty = 333,
                            trade_entry_price = 100, exit_price = 96,
                            pnl = real_of_int 333 * (96 - 100), exit_time = tm\<rparr>]) \<and>
                  real_of_int 333 * (96 - 100) < (0::real)))"
proof (intro conjI impI)
  assume "place_trade_order sig sent atr_opt df = Inr (Some pos)"
  then show "\<exists>a. atr_opt = Some a \<and> Close df \<noteq> [] \<and> signal pos = sig \<and>
                 entry_price pos = last (Close df) \<and>
                 stop_loss pos = (if sig = BUY then entry_price pos - (15 / 10) * a
                                  else entry_price pos + (15 / 10) * a)"
    unfolding order_Some_iff by auto
next
  assume ne: "Close df \<noteq> []" and last: "last (Close df) = 100" and sent: "sent \<noteq> Bearish"
  let ?pos = "\<lparr>signal = BUY, qty = 333, entry_price = 100, stop_loss = 97\<rparr>"
  let ?w' = "w\<lparr>active_positions := AList.update symb ?pos (active_positions w)\<rparr>"
  from ne last sent have order: "place_trade_order BUY sent (Some 2) df = Inr (Some ?pos)"
    by (simp add: place_trade_order_def py_int_def sizing_examples)
  have placed: "place_trade symb BUY sent (Some 2) df w = Inr ?w'"
    by (rule place_trade_stores [OF order])
  have d': "distinct (map fst (active_positions ?w'))"
    using assms by (simp add: AList.distinct_update)
  have present: "map_of (active_positions ?w') symb = Some ?pos"
    by (simp add: AList.update_conv')
  have poll: "poll_and_maybe_close symb 96 today tm ?w' = exit_trade symb 96 today tm ?w'"
    by (rule poll_breach [OF d' present]) simp
  have gone: "map_of (active_positions (poll_and_maybe_close symb 96 today tm ?w')) symb = None"
    unfolding poll by (rule exit_trade_closed)
  have bucket: "todays_bucket ?w' today = todays_bucket w today"
    by (simp add: todays_bucket_def)
  have trade: "map_of (trade_history (poll_and_maybe_close symb 96 today tm ?w')) today =
                 Some (todays_bucket w today @
                       [\<lparr>symbol = symb, trade_signal = BUY, trade_qty = 333,
                         trade_entry_price = 100, exit_price = 96,
                         pnl = real_of_int 333 * (96 - 100), exit_time = tm\<rparr>])"
    unfolding poll exit_trade_bucket [OF present] bucket by (simp add: realized_pnl_def)
  have neg: "real_of_int 333 * (96 - 100) < (0::real)" by simp
  from placed present gone trade neg
  show "\<exists>w'. place_trade symb BUY sent (Some 2) df w = Inr w' \<and>
                  map_of (active_positions w') symb =
                    Some \<lparr>signal = BUY, qty = 333, entry_price = 100, stop_loss = 97\<rparr> \<and>
                  map_of (active_positions
                    (poll_and_maybe_close symb 96 today tm w')) symb = None \<and>
                  map_of (trade_history
                    (poll_and_maybe_close symb 96 today tm w')) today =
                    Some (todays_bucket w today @
                          [\<lparr>symbol = symb, trade_signal = BUY, trade_qty = 333,
                            trade_entry_price = 100, exit_price = 96,
                            pnl = real_of_int 333 * (96 - 100), exit_time = tm\<rparr>]) \<and>
                  real_of_int 333 * (96 - 100) < (0::real)"
    by blast
qed

theorem entry_and_stop_loss_witness:
  "place_trade_order SELL Bearish (Some 4) \<lparr>High = [], Low = [], Close = [99, 100]\<rparr> =
     Inr (Some \<lparr>signal = SELL, qty = 166, entry_price = 100, stop_loss = 106\<rparr>) \<and>
   (\<exists>a. Some (4::real) = Some a \<and> (100::real) = last [99, 100] \<and>
        (106::real) = 100 + (15 / 10) * a) \<and>
   (\<exists>w'. place_trade ''ABC'' BUY Bullish (Some 2) \<lparr>High = [], Low = [], Close = [99, 100]\<rparr>
            initial_state = Inr w' \<and>
         map_of (active_positions w') ''ABC'' =
           Some \<lparr>signal = BUY, qty = 333, entry_price = 100, stop_loss = 97\<rparr> \<and>
         map_of (trade_history
           (poll_and_maybe_close ''ABC'' 96 ''2024-01-02'' ''10:00:00'' w')) ''2024-01-02'' =
           Some [\<lparr>symbol = ''ABC'', trade_signal = BUY, trade_qty = 333,
                  trade_entry_price = 100, exit_price = 96, pnl = - 1332,
                  exit_time = ''10:00:00''\<rparr>])"
proof -
  let ?df = "\<lparr>High = [], Low = [], Close = [99, 100::real]\<rparr>"
  let ?short = "\<lparr>signal = SELL, qty = 166, entry_price = 100, stop_loss = 106\<rparr>"
  have d: "distinct (map fst (active_positions initial_state))"
    by (simp add: initial_state_def)
  have made: "place_trade_order SELL Bearish (Some 4) ?df = Inr (Some ?short)"
    by (simp add: place_trade_order_def py_int_def sizing_examples)
  note r = entry_and_stop_loss [OF d]
  from r [where sig = SELL and sent = Bearish and atr_opt = "Some 4" and df = ?df
            and pos = ?short] made
  have a: "\<exists>a. Some (4::real) = Some a \<and> (100::real) = last [99, 100] \<and>
        (106::real) = 100 + (15 / 10) * a"
    by simp
  from r [where df = ?df and sent = Bullish and symb = "''ABC''"
            and today = "''2024-01-02''" and tm = "''10:00:00''"
            and sig = BUY and atr_opt = None and pos = ?short]
  have b: "\<exists>w'. place_trade ''ABC'' BUY Bullish (Some 2) ?df initial_state = Inr w' \<and>
         map_of (active_positions w') ''ABC'' =
           Some \<lparr>signal = BUY, qty = 333, entry_price = 100, stop_loss = 97\<rparr> \<and>
         map_of (trade_history
           (poll_and_maybe_close ''ABC'' 96 ''2024-01-02'' ''10:00:00'' w')) ''2024-01-02'' =
           Some [\<lparr>symbol = ''ABC'', trade_signal = BUY, trade_qty = 333,
                  trade_entry_price = 100, exit_price = 96, pnl = - 1332,
                  exit_time = ''10:00:00''\<rparr>]"
    by (simp add: todays_bucket_def initial_state_def) blast
  from made a b show ?thesis by (intro conjI)
qed


section \<open>Opening positions\<close>

lemma keyed_at_most_once:
  "distinct (map fst ps) \<Longrightarrow> length (filter (\<lambda>item. fst item = s) ps) \<le> 1"
proof (induction ps)
  case Nil
  then show ?case by simp
next
  case (Cons item ps)
  show ?case
  proof (cases "fst item = s")
    case True
    with Cons.prems have "s \<notin> fst ` set ps" by auto
    then have "filter (\<lambda>item. fst item = s) ps = []"
      by (auto simp add: filter_empty_conv)
    with True show ?thesis by simp
  next
    case False
    with Cons show ?thesis by simp
  qed
qed

lemma positions_of_at_most_one:
  "distinct (map fst (active_positions w)) \<Longrightarrow> length (positions_of w s) \<le> 1"
  unfolding positions_of_def length_map by (rule keyed_at_most_once)

lemma filter_update_same:
  "distinct (map fst al) \<Longrightarrow>
   map snd (filter (\<lambda>item. fst item = k) (AList.update k v al)) = [v]"
proof (induction al)
  case Nil
  then show ?case by simp
next
  case (Cons item al)
  show ?case
  proof (cases "fst item = k")
    case True
    with Cons.prems have "k \<notin> fst ` set al" by auto
    then have "filter (\<lambda>item. fst item = k) al = []"
      by (auto simp add: filter_empty_conv)
    with True show ?thesis by simp
  next
    case False
    with Cons show ?thesis by simp
  qed
qed

lemma place_trade_distinct:
  assumes "place_trade symb sig sent atr_opt df w = Inr w'"
    and "distinct (map fst (active_positions w))"
  shows "distinct (map fst (active_positions w'))"
  using assms
  by (auto simp add: place_trade_def AList.distinct_update split: sum.splits option.splits)

lemma place_trades_distinct:
  "place_trades calls w = Inr w' \<Longrightarrow> distinct (map fst (active_positions w)) \<Longrightarrow>
   distinct (map fst (active_positions w'))"
proof (induction calls arbitrary: w)
  case Nil
  then show ?case by simp
next
  case (Cons call calls)
  obtain symb sig sent atr_opt df where call: "call = (symb, sig, sent, atr_opt, df)"
    by (cases call) auto
  from Cons.prems(1) call obtain w1 where
    first: "place_trade symb sig sent atr_opt df w = Inr w1" and
    rest: "place_trades calls w1 = Inr w'"
    by (auto split: sum.splits)
  from place_trade_distinct [OF first Cons.prems(2)] rest show ?case
    by (rule Cons.IH [rotated])
qed

lemma daily_trading_loop_distinct:
  "daily_trading_loop backtest calculate_atr sent stocks w = Inr w' \<Longrightarrow>
   distinct (map fst (active_positions w)) \<Longrightarrow>
   distinct (map fst (active_positions w'))"
proof (induction stocks arbitrary: w)
  case Nil
  then show ?case by simp
next
  case (Cons symb stocks)
  show ?case
  proof (cases "backtest symb")
    case None
    with Cons show ?thesis by simp
  next
    case (Some r)
    obtain e df where r: "r = (e, df)" by (cases r)
    show ?thesis
    proof (cases "trading_signal (Some e) sent")
      case None
      with Cons Some r show ?thesis by simp
    next
      case sg: (Some sig)
      from Cons.prems(1) Some r sg obtain w1 where
        first: "place_trade symb sig sent (calculate_atr df) df w = Inr w1" and
        rest: "daily_trading_loop backtest calculate_atr sent stocks w1 = Inr w'"
        by (auto split: sum.splits)
      from place_trade_distinct [OF first Cons.prems(2)] rest show ?thesis
        by (rule Cons.IH [rotated])
    qed
  qed
qed

text \<open>
  C1, as the program has it. \<^verbatim>\<open>place_trade\<close> does not look for an open position
  of the instrument: it assigns \<^verbatim>\<open>active_positions[symbol]\<close>. The claim that an
  Open for an instrument with an open position is rejected as a no-op fails: the
  second of two orders for the same instrument replaces the first.
\<close>

theorem open_on_open_position_counterexample:
  "place_trades [(''ABC'', BUY, Bullish, Some 2, \<lparr>High = [], Low = [], Close = [100]\<rparr>)]
     initial_state =
     Inr \<lparr>active_positions =
            [(''ABC'', \<lparr>signal = BUY, qty = 333, entry_price = 100, stop_loss = 97\<rparr>)],
          trade_history = [], files = []\<rparr> \<and>
   place_trade ''ABC'' BUY Bullish (Some 4) \<lparr>High = [], Low = [], Close = [50]\<rparr>
     \<lparr>active_positions =
        [(''ABC'', \<lparr>signal = BUY, qty = 333, entry_price = 100, stop_loss = 97\<rparr>)],
      trade_history = [], files = []\<rparr> =
     Inr \<lparr>active_positions =
            [(''ABC'', \<lparr>signal = BUY, qty = 166, entry_price = 50, stop_loss = 44\<rparr>)],
          trade_history = [], files = []\<rparr> \<and>
   place_trade ''ABC'' BUY Bullish (Some 4) \<lparr>High = [], Low = [], Close = [50]\<rparr>
     \<lparr>active_positions =
        [(''ABC'', \<lparr>signal = BUY, qty = 333, entry_price = 100, stop_loss = 97\<rparr>)],
      trade_history = [], files = []\<rparr> \<noteq>
     Inr \<lparr>active_positions =
            [(''ABC'', \<lparr>signal = BUY, qty = 333, entry_price = 100, stop_loss = 97\<rparr>)],
          trade_history = [], files = []\<rparr>"
  by (simp add: place_trade_def place_trade_order_def py_int_def sizing_examples
      initial_state_def)

text \<open>
  C1, amended. Starting from a ledger that holds each instrument at most once (the
  empty ledger of start-up is one): an Open that builds an order stores it under the
  instrument, replacing the open position of that instrument if there is one
  and inserting no second one; the positions of the other instruments, the trade
  history and the files are unchanged. So after any sequence of Open calls, and
  after the loop of \<^verbatim>\<open>daily_trading\<close>, each instrument has at most one open
  position.
\<close>

theorem open_keeps_one_position:
  assumes "distinct (map fst (active_positions w))"
  shows "(place_trade_order sig sent atr_opt df = Inr (Some pos) \<longrightarrow>
            (\<exists>w1. place_trade symb sig sent atr_opt df w = Inr w1 \<and>
                  map_of (active_positions w1) symb = Some pos \<and>
                  positions_of w1 symb = [pos] \<and>
                  (\<forall>s. s \<noteq> symb \<longrightarrow>
                     map_of (active_positions w1) s = map_of (active_positions w) s) \<and>
                  trade_history w1 = trade_history w \<and> files w1 = files w)) \<and>
         (place_trades calls w = Inr w2 \<longrightarrow> (\<forall>s. length (positions_of w2 s) \<le> 1)) \<and>
         (daily_trading_loop backtest calculate_atr sent' stocks w = Inr w3 \<longrightarrow>
            (\<forall>s. length (positions_of w3 s) \<le> 1))"
proof (intro conjI impI)
  assume order: "place_trade_order sig sent atr_opt df = Inr (Some pos)"
  let ?w1 = "w\<lparr>active_positions := AList.update symb pos (active_positions w)\<rparr>"
  have "place_trade symb sig sent atr_opt df w = Inr ?w1"
    by (rule place_trade_stores [OF order])
  moreover have "map_of (active_positions ?w1) symb = Some pos"
    by (simp add: AList.update_conv')
  moreover have "positions_of ?w1 symb = [pos]"
    using assms by (simp add: positions_of_def filter_update_same)
  moreover have "\<forall>s. s \<noteq> symb \<longrightarrow>
                   map_of (active_positions ?w1) s = map_of (active_positions w) s"
    by (simp add: AList.update_conv')
  moreover have "trade_history ?w1 = trade_history w \<and> files ?w1 = files w"
    by simp
  ultimately show "\<exists>w1. place_trade symb sig sent atr_opt df w = Inr w1 \<and>
                  map_of (active_positions w1) symb = Some pos \<and>
                  positions_of w1 symb = [pos] \<and>
                  (\<forall>s. s \<noteq> symb \<longrightarrow>
                     map_of (active_positions w1) s = map_of (active_positions w) s) \<and>
                  trade_history w1 = trade_history w \<and> files w1 = files w"
    by blast
next
  assume "place_trades calls w = Inr w2"
  then have "distinct (map fst (active_positions w2))"
    using assms by (rule place_trades_distinct)
  then show "\<forall>s. length (positions_of w2 s) \<le> 1"
    by (blast intro: positions_of_at_most_one)
next
  assume "daily_trading_loop backtest calculate_atr sent' stocks w = Inr w3"
  then have "distinct (map fst (active_positions w3))"
    using assms by (rule daily_trading_loop_distinct)
  then show "\<forall>s. length (positions_of w3 s) \<le> 1"
    by (blast intro: positions_of_at_most_one)
qed

theorem open_keeps_one_position_witness:
  "(\<exists>w1. place_trade ''ABC'' BUY Bullish (Some 4) \<lparr>High = [], Low = [], Close = [50]\<rparr>
            \<lparr>active_positions =
               [(''ABC'', \<lparr>signal = BUY, qty = 333, entry_price = 100, stop_loss = 97\<rparr>)],
             trade_history = [], files = []\<rparr> = Inr w1 \<and>
          map_of (active_positions w1) ''ABC'' =
            Some \<lparr>signal = BUY, qty = 166, entry_price = 50, stop_loss = 44\<rparr> \<and>
          positions_of w1 ''ABC'' =
            [\<lparr>signal = BUY, qty = 166, entry_price = 50, stop_loss = 44\<rparr>]) \<and>
   place_trades [(''ABC'', BUY, Bullish, Some 2, \<lparr>High = [], Low = [], Close = [100]\<rparr>),
                 (''ABC'', BUY, Bullish, Some 4, \<lparr>High = [], Low = [], Close = [50]\<rparr>)]
     initial_state =
     Inr \<lparr>active_positions =
            [(''ABC'', \<lparr>signal = BUY, qty = 166, entry_price = 50, stop_loss = 44\<rparr>)],
          trade_history = [], files = []\<rparr> \<and>
   (\<forall>s. length (positions_of
       \<lparr>active_positions =
          [(''ABC'', \<lparr>signal = BUY, qty = 166, entry_price = 50, stop_loss = 44\<rparr>)],
        trade_history = [], files = []\<rparr> s) \<le> 1) \<and>
   daily_trading_loop (\<lambda>s. Some (50, \<lparr>High = [], Low = [], Close = [100]\<rparr>))
     (\<lambda>d. Some 2) Bullish [''ABC'', ''ABC''] initial_state =
     Inr \<lparr>active_positions =
            [(''ABC'', \<lparr>signal = BUY, qty = 333, entry_price = 100, stop_loss = 97\<rparr>)],
          trade_history = [], files = []\<rparr> \<and>
   (\<forall>s. length (positions_of
       \<lparr>active_positions =
          [(''ABC'', \<lparr>signal = BUY, qty = 333, entry_price = 100, stop_loss = 97\<rparr>)],
        trade_history = [], files = []\<rparr> s) \<le> 1)"
proof -
  let ?p1 = "\<lparr>signal = BUY, qty = 333, entry_price = 100, stop_loss = 97\<rparr>"
  let ?p2 = "\<lparr>signal = BUY, qty = 166, entry_price = 50, stop_loss = 44\<rparr>"
  let ?s1 = "\<lparr>active_positions = [(''ABC'', ?p1)], trade_history = [], files = []\<rparr>"
  let ?s2 = "\<lparr>active_positions = [(''ABC'', ?p2)], trade_history = [], files = []\<rparr>"
  let ?df100 = "\<lparr>High = [], Low = [], Close = [100::real]\<rparr>"
  let ?df50 = "\<lparr>High = [], Low = [], Close = [50::real]\<rparr>"
  let ?calls = "[(''ABC'', BUY, Bullish, Some 2, ?df100), (''ABC'', BUY, Bullish, Some 4, ?df50)]"
  let ?backtest = "\<lambda>s :: string. Some (50 :: real, ?df100)"
  let ?atr = "\<lambda>d :: price_frame. Some (2 :: real)"
  have d0: "distinct (map fst (active_positions initial_state))"
    by (simp add: initial_state_def)
  have d1: "distinct (map fst (active_positions ?s1))" by simp
  have order: "place_trade_order BUY Bullish (Some 4) ?df50 = Inr (Some ?p2)"
    by (simp add: place_trade_order_def py_int_def sizing_examples)
  have seq: "place_trades ?calls initial_state = Inr ?s2"
    by (simp add: place_trade_def place_trade_order_def py_int_def sizing_examples
        initial_state_def)
  have loop: "daily_trading_loop ?backtest ?atr Bullish [''ABC'', ''ABC''] initial_state =
              Inr ?s1"
    by (simp add: trading_signal_def place_trade_def place_trade_order_def py_int_def
        sizing_examples initial_state_def)
  from open_keeps_one_position [OF d1, where sig = BUY and sent = Bullish
        and atr_opt = "Some 4" and df = ?df50 and pos = ?p2 and symb = "''ABC''"] order
  have a: "\<exists>w1. place_trade ''ABC'' BUY Bullish (Some 4) ?df50 ?s1 = Inr w1 \<and>
          map_of (active_positions w1) ''ABC'' = Some ?p2 \<and>
          positions_of w1 ''ABC'' = [?p2]"
    by blast
  from open_keeps_one_position [OF d0, where calls = ?calls and ?w2.0 = ?s2] seq
  have b: "\<forall>s. length (positions_of ?s2 s) \<le> 1" by blast
  from open_keeps_one_position [OF d0, where backtest = ?backtest
        and calculate_atr = ?atr and sent' = Bullish and stocks = "[''ABC'', ''ABC'']"
        and ?w3.0 = ?s1] loop
  have c: "\<forall>s. length (positions_of ?s1 s) \<le> 1" by blast
  from a seq b loop c show ?thesis by (intro conjI)
qed


section \<open>The daily report\<close>

lemma save_daily_report_frame:
  "active_positions (save_daily_report csv_text today w) = active_positions w \<and>
   trade_history (save_daily_report csv_text today w) = trade_history w"
  by (simp add: save_daily_report_def Let_def)

lemma all_trades_frame:
  "all_trades (save_daily_report csv_text today w) = all_trades w"
  by (simp add: all_trades_def save_daily_report_frame)

lemma save_daily_report_empty:
  "all_trades w = [] \<Longrightarrow> save_daily_report csv_text today w = w"
  by (simp add: save_daily_report_def Let_def)

lemma save_daily_report_written:
  assumes "all_trades w \<noteq> []"
  shows "save_daily_report csv_text today w =
           w\<lparr>files := AList.update (report_filename today)
                        (csv_text report_keys (all_trades w)) (files w)\<rparr>"
proof -
  from assms have "trade_history w \<noteq> []" by (auto simp add: all_trades_def)
  with assms show ?thesis by (simp add: save_daily_report_def Let_def)
qed

lemma save_daily_report_twice:
  "save_daily_report csv_text today (save_daily_report csv_text today w) =
   save_daily_report csv_text today w"
proof (cases "all_trades w = []")
  case True
  then show ?thesis by (simp add: save_daily_report_empty)
next
  case False
  let ?w' = "save_daily_report csv_text today w"
  from False have "all_trades ?w' \<noteq> []" by (simp add: all_trades_frame)
  then have "save_daily_report csv_text today ?w' =
             ?w'\<lparr>files := AList.update (report_filename today)
                        (csv_text report_keys (all_trades ?w')) (files ?w')\<rparr>"
    by (rule save_daily_report_written)
  also have "\<dots> = ?w'\<lparr>files := AList.update (report_filename today)
                        (csv_text report_keys (all_trades w)) (files ?w')\<rparr>"
    by (simp only: all_trades_frame)
  also have "\<dots> = ?w'"
    unfolding save_daily_report_written [OF False] by simp
  finally show ?thesis .
qed

text \<open>
  C8. Running the daily report a second time on the same day, with no trade closed
  in between, leaves every file as the first run wrote it: the state after two runs
  is the state after one run, so the report file holds the same text and no row
  twice. The text is a function of the trade history and the day alone: the file
  named after the day holds the rendering of all closed trades, and nothing is
  written when there are none.
\<close>

theorem daily_report_idempotent:
  "save_daily_report csv_text today (save_daily_report csv_text today w) =
     save_daily_report csv_text today w \<and>
   map_of (files (save_daily_report csv_text today (save_daily_report csv_text today w)))
       (report_filename today) =
     map_of (files (save_daily_report csv_text today w))
       (report_filename today) \<and>
   map_of (files (save_daily_report csv_text today w))
       (report_filename today) =
     (if all_trades w = [] then map_of (files w) (report_filename today)
      else Some (csv_text report_keys (all_trades w)))"
proof (intro conjI)
  show "save_daily_report csv_text today (save_daily_report csv_text today w) =
        save_daily_report csv_text today w"
    by (rule save_daily_report_twice)
  then show "map_of (files (save_daily_report csv_text today
                 (save_daily_report csv_text today w)))
       (report_filename today) =
     map_of (files (save_daily_report csv_text today w))
       (report_filename today)"
    by simp
  show "map_of (files (save_daily_report csv_text today w))
       (report_filename today) =
     (if all_trades w = [] then map_of (files w) (report_filename today)
      else Some (csv_text report_keys (all_trades w)))"
  proof (cases "all_trades w = []")
    case True
    then show ?thesis by (simp add: save_daily_report_empty)
  next
    case False
    then show ?thesis
      by (simp add: save_daily_report_written [OF False] AList.update_conv')
  qed
qed

text \<open>
  C9. Writing the daily report changes neither the open positions nor the
  day-keyed history of closed trades. When the history holds a trade, the rows
  handed to the CSV writer are the days' lists one after the other, in the order of
  the history's keys (the order in which the days were first inserted), and each
  list in the order its trades were appended; when it holds none, nothing is written.
\<close>

theorem daily_report_frame:
  "active_positions (save_daily_report csv_text today w) = active_positions w \<and>
   trade_history (save_daily_report csv_text today w) = trade_history w \<and>
   (concat (map snd (trade_history w)) \<noteq> [] \<longrightarrow>
      map_of (files (save_daily_report csv_text today w))
          (report_filename today) =
        Some (csv_text report_keys (concat (map snd (trade_history w))))) \<and>
   (concat (map snd (trade_history w)) = [] \<longrightarrow> save_daily_report csv_text today w = w)"
proof (intro conjI impI)
  show "active_positions (save_daily_report csv_text today w) = active_positions w"
    by (simp add: save_daily_report_frame)
  show "trade_history (save_daily_report csv_text today w) = trade_history w"
    by (simp add: save_daily_report_frame)
next
  assume "concat (map snd (trade_history w)) \<noteq> []"
  then have ne: "all_trades w \<noteq> []" by (simp add: all_trades_def)
  show "map_of (files (save_daily_report csv_text today w))
          (report_filename today) =
        Some (csv_text report_keys (concat (map snd (trade_history w))))"
    unfolding save_daily_report_written [OF ne]
    by (simp add: AList.update_conv' all_trades_def)
next
  assume "concat (map snd (trade_history w)) = []"
  then have "all_trades w = []" by (simp add: all_trades_def)
  then show "save_daily_report csv_text today w = w"
    by (rule save_daily_report_empty)
qed

theorem daily_report_idempotent_witness:
  "save_daily_report (\<lambda>keys rows. concat (map symbol rows)) ''2024-01-02''
     (save_daily_report (\<lambda>keys rows. concat (map symbol rows)) ''2024-01-02''
        \<lparr>active_positions = [],
         trade_history =
           [(''2024-01-01'',
             [\<lparr>symbol = ''AA'', trade_signal = BUY, trade_qty = 1, trade_entry_price = 10,
               exit_price = 9, pnl = - 1, exit_time = ''10:00:00''\<rparr>]),
            (''2024-01-02'',
             [\<lparr>symbol = ''BB'', trade_signal = SELL, trade_qty = 2, trade_entry_price = 10,
               exit_price = 12, pnl = - 4, exit_time = ''11:00:00''\<rparr>])],
         files = []\<rparr>) =
     \<lparr>active_positions = [],
      trade_history =
        [(''2024-01-01'',
          [\<lparr>symbol = ''AA'', trade_signal = BUY, trade_qty = 1, trade_entry_price = 10,
            exit_price = 9, pnl = - 1, exit_time = ''10:00:00''\<rparr>]),
         (''2024-01-02'',
          [\<lparr>symbol = ''BB'', trade_signal = SELL, trade_qty = 2, trade_entry_price = 10,
            exit_price = 12, pnl = - 4, exit_time = ''11:00:00''\<rparr>])],
      files = [(''daily_trade_report_2024-01-02.csv'', ''AABB'')]\<rparr>"
proof -
  let ?csv = "\<lambda>(keys :: string list) (rows :: closed_trade list). concat (map symbol rows)"
  let ?w = "\<lparr>active_positions = [],
         trade_history =
           [(''2024-01-01'',
             [\<lparr>symbol = ''AA'', trade_signal = BUY, trade_qty = 1, trade_entry_price = 10,
               exit_price = 9, pnl = - 1, exit_time = ''10:00:00''\<rparr>]),
            (''2024-01-02'',
             [\<lparr>symbol = ''BB'', trade_signal = SELL, trade_qty = 2, trade_entry_price = 10,
               exit_price = 12, pnl = - 4, exit_time = ''11:00:00''\<rparr>])],
         files = []\<rparr>"
  have once: "save_daily_report ?csv ''2024-01-02'' ?w =
                ?w\<lparr>files := [(''daily_trade_report_2024-01-02.csv'', ''AABB'')]\<rparr>"
    by (simp add: save_daily_report_def all_trades_def report_filename_def)
  from daily_report_idempotent [of ?csv "''2024-01-02''" ?w]
  have "save_daily_report ?csv ''2024-01-02'' (save_daily_report ?csv ''2024-01-02'' ?w) =
        save_daily_report ?csv ''2024-01-02'' ?w"
    by (rule conjunct1)
  then show ?thesis unfolding once by simp
qed

theorem daily_report_frame_witness:
  "map_of (files (save_daily_report (\<lambda>keys rows. concat (map symbol rows)) ''2024-01-02''
        \<lparr>active_positions = [],
         trade_history =
           [(''2024-01-01'',
             [\<lparr>symbol = ''AA'', trade_signal = BUY, trade_qty = 1, trade_entry_price = 10,
               exit_price = 9, pnl = - 1, exit_time = ''10:00:00''\<rparr>]),
            (''2024-01-02'',
             [\<lparr>symbol = ''BB'', trade_signal = SELL, trade_qty = 2, trade_entry_price = 10,
               exit_price = 12, pnl = - 4, exit_time = ''11:00:00''\<rparr>])],
         files = []\<rparr>)) (report_filename ''2024-01-02'') = Some ''AABB'' \<and>
   trade_history (save_daily_report (\<lambda>keys rows. concat (map symbol rows)) ''2024-01-02''
        \<lparr>active_positions = [],
         trade_history =
           [(''2024-01-01'',
             [\<lparr>symbol = ''AA'', trade_signal = BUY, trade_qty = 1, trade_entry_price = 10,
               exit_price = 9, pnl = - 1, exit_time = ''10:00:00''\<rparr>]),
            (''2024-01-02'',
             [\<lparr>symbol = ''BB'', trade_signal = SELL, trade_qty = 2, trade_entry_price = 10,
               exit_price = 12, pnl = - 4, exit_time = ''11:00:00''\<rparr>])],
         files = []\<rparr>) =
     [(''2024-01-01'',
       [\<lparr>symbol = ''AA'', trade_signal = BUY, trade_qty = 1, trade_entry_price = 10,
         exit_price = 9, pnl = - 1, exit_time = ''10:00:00''\<rparr>]),
      (''2024-01-02'',
       [\<lparr>symbol = ''BB'', trade_signal = SELL, trade_qty = 2, trade_entry_price = 10,
         exit_price = 12, pnl = - 4, exit_time = ''11:00:00''\<rparr>])] \<and>
   save_daily_report (\<lambda>keys rows. concat (map symbol rows)) ''2024-01-02'' initial_state =
     initial_state"
proof -
  let ?csv = "\<lambda>(keys :: string list) (rows :: closed_trade list). concat (map symbol rows)"
  let ?w = "\<lparr>active_positions = [],
         trade_history =
           [(''2024-01-01'',
             [\<lparr>symbol = ''AA'', trade_signal = BUY, trade_qty = 1, trade_entry_price = 10,
               exit_price = 9, pnl = - 1, exit_time = ''10:00:00''\<rparr>]),
            (''2024-01-02'',
             [\<lparr>symbol = ''BB'', trade_signal = SELL, trade_qty = 2, trade_entry_price = 10,
               exit_price = 12, pnl = - 4, exit_time = ''11:00:00''\<rparr>])],
         files = []\<rparr>"
  have some: "concat (map snd (trade_history ?w)) \<noteq> []" by simp
  have none: "concat (map snd (trade_history initial_state)) = []"
    by (simp add: initial_state_def)
  from daily_report_frame [of ?csv "''2024-01-02''" ?w] some
  have a: "map_of (files (save_daily_report ?csv ''2024-01-02'' ?w))
             (report_filename ''2024-01-02'') = Some ''AABB''"
    and b: "trade_history (save_daily_report ?csv ''2024-01-02'' ?w) = trade_history ?w"
    by simp_all
  from daily_report_frame [of ?csv "''2024-01-02''" initial_state] none
  have c: "save_daily_report ?csv ''2024-01-02'' initial_state = initial_state"
    by blast
  from a b c show ?thesis by simp
qed

end
